theory Spec2Isabelle
  imports Complex_Main
begin

section \<open>The session engine of the Splitwise Telegram bot (app.js)\<close>

text \<open>
  The bot keeps one JavaScript object \<^verbatim>\<open>userSessions\<close>, keyed by chat id, and a set of
  pending Node timers. Every handler of app.js is embedded as a function from the state
  before the event to the state after it, the list of transport and remote calls it
  issued (in program order) and the way it finished. What the handler awaits (a database
  row, the reply of the accounting service, the id of a sent message) is an input of the
  embedding: the record \<open>env\<close>. A handler is run from its first statement to its
  last; the \<^verbatim>\<open>/group\<close> handler is also given from its \<^verbatim>\<open>fetch\<close> on, so that two
  handlers suspended at that await can be composed in either order.

  Strings are byte strings in UTF-8. The digits and capital letters of the patterns are
  ASCII in JavaScript too; white space is the set that \<^verbatim>\<open>trim\<close>, \<^verbatim>\<open>\s\<close> and
  \<^verbatim>\<open>parseInt\<close> share.
\<close>

subsection \<open>Identifiers and numbers\<close>

type_synonym chat_id = int
type_synonym user_id = int
type_synonym msg_id = int
type_synonym timer_id = nat

text \<open>
  A JavaScript number that the amount path can produce: a finite binary64 value, kept as
  the rational it denotes, or \<^verbatim>\<open>Infinity\<close> (a digit string of more than 308 digits).
\<close>

datatype jsnum = Num rat | Infinity

text \<open>
  The result of \<^verbatim>\<open>Number.prototype.toFixed(2)\<close>: the decimal with two fraction digits,
  kept as its number of hundredths, or, from \<open>10^21\<close> on and for \<^verbatim>\<open>Infinity\<close>, the
  plain \<^verbatim>\<open>String(x)\<close> of the number, which is not cut to two decimals.
\<close>

datatype fixed = Fixed2 int | Plain jsnum

text \<open>The number of bits of a positive integer.\<close>

function bitlen :: "int \<Rightarrow> nat" where
  "bitlen k = (if k \<le> 0 then 0 else Suc (bitlen (k div 2)))"
  by pat_completeness auto
termination
  by (relation "measure nat") auto

declare bitlen.simps [simp del]

text \<open>\<open>2 ^ e\<close> for an integer \<open>e\<close>, and \<open>\<lfloor>log\<^sub>2 x\<rfloor>\<close> for a positive rational \<open>x\<close>.\<close>

function pow2_nonneg :: "int \<Rightarrow> rat" where
  "pow2_nonneg e =
     (if e \<le> 0 then 1
      else let h = pow2_nonneg (e div 2) in if e mod 2 = 0 then h * h else 2 * h * h)"
  by pat_completeness auto
termination
  by (relation "measure nat") auto

declare pow2_nonneg.simps [simp del]

definition pow2 :: "int \<Rightarrow> rat" where
  "pow2 e = (if 0 \<le> e then pow2_nonneg e else 1 / pow2_nonneg (- e))"

definition floor_log2 :: "rat \<Rightarrow> int" where
  "floor_log2 x =
     (let (a, b) = quotient_of x;
          d = int (bitlen a) - int (bitlen b)
      in if pow2 d \<le> x then d else d - 1)"

definition round_half_even :: "rat \<Rightarrow> int" where
  "round_half_even m =
     (let n = \<lfloor>m\<rfloor>; r = m - of_int n
      in if r < 1 / 2 then n else if 1 / 2 < r then n + 1
         else if even n then n else n + 1)"

text \<open>
  Rounding of a non-negative real to binary64, to nearest, ties to even: 53 significant
  bits, the least exponent of the subnormals, overflow to \<^verbatim>\<open>Infinity\<close>.
\<close>

definition to_double :: "rat \<Rightarrow> jsnum" where
  "to_double x =
     (if x = 0 then Num 0
      else let q = max (floor_log2 x - 52) (- 1074);
               r = of_int (round_half_even (x / pow2 q)) * pow2 q
           in if pow2 1024 \<le> r then Infinity else Num r)"

text \<open>
  \<^verbatim>\<open>amount / selectedMembers.length\<close>: the divisor is the length of an array, which is
  not empty where the code divides.
\<close>

definition js_div :: "jsnum \<Rightarrow> nat \<Rightarrow> jsnum" where
  "js_div a n =
     (case a of
        Infinity \<Rightarrow> Infinity
      | Num x \<Rightarrow> if n = 0 then Infinity else to_double (x / of_nat n))"

text \<open>
  \<^verbatim>\<open>x.toFixed(2)\<close>: below \<open>10^21\<close> the integer \<open>n\<close> for which \<open>n / 100 - x\<close> is closest to
  zero, the larger one of two; a negative \<open>x\<close> is rounded as \<open>- x\<close> and signed.
\<close>

definition toFixed2 :: "jsnum \<Rightarrow> fixed" where
  "toFixed2 a =
     (case a of
        Infinity \<Rightarrow> Plain Infinity
      | Num x \<Rightarrow>
          if 10 ^ 21 \<le> \<bar>x\<bar> then Plain (Num x)
          else if x < 0 then Fixed2 (- \<lfloor>- x * 100 + 1 / 2\<rfloor>)
          else Fixed2 \<lfloor>x * 100 + 1 / 2\<rfloor>)"

subsection \<open>Strings\<close>

text \<open>
  The number of bytes of the white-space character at the head of a string, 0 when there
  is none. White space is U+0009 to U+000D, U+0020, U+00A0, U+1680, U+2000 to U+200A,
  U+2028, U+2029, U+202F, U+205F, U+3000 and U+FEFF.
\<close>

fun ws_len :: "string \<Rightarrow> nat" where
  "ws_len [] = 0"
| "ws_len (c # cs) =
     (let b = (of_char c :: nat)
      in if b = 32 \<or> (9 \<le> b \<and> b \<le> 13) then 1
         else if b = 194
         then (case cs of c1 # r \<Rightarrow> if (of_char c1 :: nat) = 160 then 2 else 0 | [] \<Rightarrow> 0)
         else if b = 225
         then (case cs of
                 c1 # c2 # r \<Rightarrow>
                   if (of_char c1 :: nat) = 154 \<and> (of_char c2 :: nat) = 128 then 3 else 0
               | _ \<Rightarrow> 0)
         else if b = 226
         then (case cs of
                 c1 # c2 # r \<Rightarrow>
                   (let b1 = (of_char c1 :: nat); b2 = (of_char c2 :: nat)
                    in if b1 = 128 \<and> ((128 \<le> b2 \<and> b2 \<le> 138) \<or> b2 = 168 \<or> b2 = 169
                                       \<or> b2 = 175)
                       then 3
                       else if b1 = 129 \<and> b2 = 159 then 3 else 0)
               | _ \<Rightarrow> 0)
         else if b = 227
         then (case cs of
                 c1 # c2 # r \<Rightarrow>
                   if (of_char c1 :: nat) = 128 \<and> (of_char c2 :: nat) = 128 then 3 else 0
               | _ \<Rightarrow> 0)
         else if b = 239
         then (case cs of
                 c1 # c2 # r \<Rightarrow>
                   if (of_char c1 :: nat) = 187 \<and> (of_char c2 :: nat) = 191 then 3 else 0
               | _ \<Rightarrow> 0)
         else 0)"

text \<open>The string without its leading white space.\<close>

function skip_ws :: "string \<Rightarrow> string" where
  "skip_ws s = (if ws_len s = 0 then s else skip_ws (drop (ws_len s) s))"
  by pat_completeness auto
termination
proof (relation "measure length")
  show "wf (measure length)" by simp
next
  fix s :: string
  assume a: "ws_len s \<noteq> 0"
  then have "s \<noteq> []" by (cases s) simp_all
  then show "(drop (ws_len s) s, s) \<in> measure length"
    using a by simp
qed

declare skip_ws.simps [simp del]

text \<open>
  The number of bytes of the white-space character at the end of a string, 0 when there
  is none, and the string without its trailing white space.
\<close>

definition ws_end :: "string \<Rightarrow> nat" where
  "ws_end s =
     (let n = length s
      in if 1 \<le> n \<and> ws_len (drop (n - 1) s) = 1 then 1
         else if 2 \<le> n \<and> ws_len (drop (n - 2) s) = 2 then 2
         else if 3 \<le> n \<and> ws_len (drop (n - 3) s) = 3 then 3
         else 0)"

function drop_ws_end :: "string \<Rightarrow> string" where
  "drop_ws_end s = (if ws_end s = 0 then s else drop_ws_end (take (length s - ws_end s) s))"
  by pat_completeness auto
termination
proof (relation "measure length")
  show "wf (measure length)" by simp
next
  fix s :: string
  assume a: "ws_end s \<noteq> 0"
  then have "s \<noteq> []" by (auto simp add: ws_end_def Let_def split: if_splits)
  then show "(take (length s - ws_end s) s, s) \<in> measure length"
    using a by simp
qed

declare drop_ws_end.simps [simp del]

definition is_digit :: "char \<Rightarrow> bool" where
  "is_digit c = ((48::nat) \<le> of_char c \<and> of_char c \<le> (57::nat))"

definition is_upper :: "char \<Rightarrow> bool" where
  "is_upper c = ((65::nat) \<le> of_char c \<and> of_char c \<le> (90::nat))"

text \<open>\<^verbatim>\<open>s.trim()\<close>.\<close>

definition trim :: "string \<Rightarrow> string" where
  "trim s = drop_ws_end (skip_ws s)"

definition startsWith :: "string \<Rightarrow> string \<Rightarrow> bool" where
  "startsWith s p = (take (length p) s = p)"

text \<open>\<^verbatim>\<open>s.split(c)\<close> for a one-character separator.\<close>

fun split_on :: "char \<Rightarrow> string \<Rightarrow> string list" where
  "split_on c [] = [[]]"
| "split_on c (x # xs) =
     (if x = c then [] # split_on c xs
      else (case split_on c xs of w # ws \<Rightarrow> (x # w) # ws | [] \<Rightarrow> [[x]]))"

text \<open>\<^verbatim>\<open>data.split("_")[k]\<close>; \<open>None\<close> is \<^verbatim>\<open>undefined\<close>.\<close>

definition segment :: "nat \<Rightarrow> string \<Rightarrow> string option" where
  "segment k s =
     (let ws = split_on CHR ''_'' s in if k < length ws then Some (ws ! k) else None)"

definition digit_val :: "char \<Rightarrow> int" where
  "digit_val c = of_char c - 48"

definition digits_val :: "string \<Rightarrow> int" where
  "digits_val ds = foldl (\<lambda>a c. 10 * a + digit_val c) 0 ds"

text \<open>
  \<^verbatim>\<open>parseInt(s, 10)\<close>: leading white space, a sign, then the longest run of digits;
  \<open>None\<close> is \<^verbatim>\<open>NaN\<close>. The value is used as an array index only, where an integer and
  the binary64 nearest to it select the same element or none.
\<close>

definition parseInt10 :: "string option \<Rightarrow> int option" where
  "parseInt10 so =
     (case so of
        None \<Rightarrow> None
      | Some s \<Rightarrow>
          (let s1 = skip_ws s;
               neg = (s1 \<noteq> [] \<and> hd s1 = CHR ''-'');
               s2 = (if s1 \<noteq> [] \<and> (hd s1 = CHR ''-'' \<or> hd s1 = CHR ''+'') then tl s1 else s1);
               ds = takeWhile is_digit s2
           in if ds = [] then None
              else Some (if neg then - digits_val ds else digits_val ds)))"

text \<open>
  \<^verbatim>\<open>String(n)\<close> for an integer \<open>n\<close> below \<open>10^21\<close> in magnitude, as the ids of groups and
  the indices of members are. From \<open>10^21\<close> on JavaScript prints the exponent form, which
  is not modelled.
\<close>

function show_digits :: "int \<Rightarrow> string" where
  "show_digits n =
     (if n < 10 then [char_of (48 + n)]
      else show_digits (n div 10) @ [char_of (48 + n mod 10)])"
  by pat_completeness auto
termination
  by (relation "measure nat") auto

declare show_digits.simps [simp del]

definition show_int :: "int \<Rightarrow> string" where
  "show_int i = (if i < 0 then CHR ''-'' # show_digits (- i) else show_digits i)"

definition show_nat :: "nat \<Rightarrow> string" where
  "show_nat n = show_digits (int n)"

text \<open>
  \<^verbatim>\<open>input.match(/^(\d+(\.\d{1,2})?)\s*([A-Z]{3})?$/)\<close>: the groups 1 and 3 of the match,
  or \<open>None\<close> when the input does not match. No character class of the pattern
  overlaps the next one, so the greedy reading is the only one.
\<close>

definition match_amount :: "string \<Rightarrow> (string \<times> string option) option" where
  "match_amount s =
     (let ds = takeWhile is_digit s; r1 = dropWhile is_digit s
      in if ds = [] then None
         else
           let fr = (case r1 of
                       c0 # c1 # r \<Rightarrow>
                         if c0 = CHR ''.'' \<and> is_digit c1
                         then (case r of
                                 c2 # r' \<Rightarrow> if is_digit c2 then [c0, c1, c2] else [c0, c1]
                               | [] \<Rightarrow> [c0, c1])
                         else []
                     | _ \<Rightarrow> []);
               r3 = skip_ws (drop (length fr) r1)
           in if r3 = [] then Some (ds @ fr, None)
              else if length r3 = 3 \<and> list_all is_upper r3 then Some (ds @ fr, Some r3)
              else None)"

text \<open>
  \<^verbatim>\<open>parseFloat\<close> on group 1 of the match (digits, then at most a point and one or two
  digits): the decimal it writes, rounded to binary64.
\<close>

definition parseFloat :: "string \<Rightarrow> jsnum" where
  "parseFloat s =
     (let ip = takeWhile is_digit s; fp = drop (Suc (length ip)) s
      in to_double (of_int (digits_val ip) + of_int (digits_val fp) / 10 ^ length fp))"

subsection \<open>Sessions, timers and the calls a handler makes\<close>

record member =
  member_id :: int
  first_name :: string
  last_name :: string

record group =
  group_id :: int
  group_name :: string
  group_members :: "member list"

text \<open>The three values the code gives \<^verbatim>\<open>session.step\<close>.\<close>

datatype step = awaiting_description | awaiting_amount | splitEqually

text \<open>
  A session object. A field that the object does not have (\<^verbatim>\<open>undefined\<close>) is \<open>None\<close>.
  \<open>oid\<close> is the identity of the object: a closure that captured the object knows it
  by this number. An object that \<^verbatim>\<open>userSessions\<close> no longer holds is never put back
  (every assignment to \<^verbatim>\<open>userSessions[chatId]\<close> is a fresh object literal), so a write
  to it through a captured reference changes nothing that a handler can read, and only
  the objects in \<^verbatim>\<open>userSessions\<close> are kept.
\<close>

record session =
  oid :: nat
  timeout :: "timer_id option"
  messageIds :: "msg_id list option"
  userId :: "user_id option"
  loginMessageId :: "msg_id option"
  groups :: "group list option"
  step :: "step option"
  groupId :: "string option"
  description :: "string option"
  amount :: "jsnum option"
  currencyCode :: "string option"
  members :: "member list option"
  selectedMembers :: "int list option"

text \<open>The object literal \<^verbatim>\<open>{}\<close>.\<close>

definition empty_object :: "nat \<Rightarrow> session" where
  "empty_object n =
     \<lparr>oid = n, timeout = None, messageIds = None, userId = None, loginMessageId = None,
      groups = None, step = None, groupId = None, description = None, amount = None,
      currencyCode = None, members = None, selectedMembers = None\<rparr>"

text \<open>
  A pending timer made by \<^verbatim>\<open>setButtonTimeout\<close>: the variables its callback closes over.
  \<open>t_session\<close> is the session object that \<^verbatim>\<open>userSessions[chatId]\<close> held when the timer
  was made, \<open>None\<close> when it held none.
\<close>

record timer =
  t_chat :: chat_id
  t_message :: msg_id
  t_session :: "nat option"

record state =
  userSessions :: "chat_id \<rightharpoonup> session"
  timers :: "timer_id \<rightharpoonup> timer"
  nextTimer :: timer_id
  nextObject :: nat

record button =
  label :: string
  callback_data :: string

type_synonym keyboard = "button list list"

text \<open>
  The text of an outbound message: a literal of the source, or the data a template of
  the source is filled with (the rendering itself is not modelled).
\<close>

datatype msg_text =
    Text string
  | LoginLink chat_id
  | GroupInfo group
  | GroupBalances group
  | DefaultGroupSet string
  | ExpenseCreated fixed "string option"
  | ExpenseFailed "string list"

text \<open>The body of the \<^verbatim>\<open>create_expense\<close> request.\<close>

record payload =
  p_cost :: fixed
  p_description :: "string option"
  p_currency_code :: "string option"
  p_category_id :: nat
  p_group_id :: "string option"
  p_split_equally :: bool
  p_users :: "(nat \<times> int \<times> fixed \<times> fixed) list"

text \<open>
  The calls a handler makes, in the order it makes them. A call is listed when it is
  made, whether it then succeeds or not.
\<close>

datatype effect =
    SendMessage chat_id msg_text "keyboard option"
  | EditMessageReplyMarkup chat_id msg_id keyboard
  | DeleteMessage chat_id msg_id
  | AnswerCallbackQuery string "string option" bool
  | GetGroups "string option"
  | GetGroup "string option" "string option"
  | CreateExpense "string option" payload
  | SaveDefaultGroup chat_id "string option"
  | DestroyToken chat_id

text \<open>
  How a handler finished: it ran to the end of its body, it left through a
  \<^verbatim>\<open>return\<close>, or an exception left it (a rejected promise of the async handler).
\<close>

datatype completion = Completed | Returned | Threw

type_synonym result = "state \<times> effect list \<times> completion"

subsection \<open>What a handler awaits\<close>

datatype 'a outcome = Resolved 'a | Rejected

record token =
  accessToken :: string
  defaultGroupId :: "string option"

text \<open>
  The three shapes of the \<^verbatim>\<open>create_expense\<close> reply that the code tells apart: a
  non-empty \<^verbatim>\<open>errors.base\<close>, a non-empty \<^verbatim>\<open>expenses\<close>, anything else.
\<close>

datatype expense_data = ExpenseErrors "string list" | ExpenseSaved | ExpenseUnknown

text \<open>
  \<open>findOne\<close>: the row \<^verbatim>\<open>Token.findOne\<close> gives for the chat. \<open>getGroups\<close>, \<open>getGroup\<close>:
  \<^verbatim>\<open>data.groups\<close> and \<^verbatim>\<open>groupData.group\<close> of the parsed reply (\<open>None\<close> when the reply has
  no such field). \<open>tokenSave\<close>, \<open>tokenDestroy\<close>: whether \<^verbatim>\<open>token.save()\<close> and
  \<^verbatim>\<open>Token.destroy\<close> succeed. \<open>sent\<close>: the id of the message of the one \<^verbatim>\<open>sendMessage\<close>
  whose result the handler reads. \<open>editOk\<close>: whether the awaited
  \<^verbatim>\<open>editMessageReplyMarkup\<close> succeeds.
\<close>

record env =
  findOne :: "token option outcome"
  getGroups :: "group list option outcome"
  getGroup :: "group option outcome"
  createExpense :: "expense_data outcome"
  tokenSave :: bool
  tokenDestroy :: bool
  sent :: "msg_id outcome"
  editOk :: bool

text \<open>\<^verbatim>\<open>loadToken\<close>: a database error is caught and gives \<^verbatim>\<open>null\<close>.\<close>

definition loadToken :: "env \<Rightarrow> string option" where
  "loadToken e =
     (case findOne e of
        Resolved (Some t) \<Rightarrow> Some (accessToken t)
      | Resolved None \<Rightarrow> None
      | Rejected \<Rightarrow> None)"

text \<open>Truthiness of a string that may be absent: the empty string is falsy.\<close>

definition truthy :: "string option \<Rightarrow> bool" where
  "truthy so = (case so of None \<Rightarrow> False | Some s \<Rightarrow> s \<noteq> [])"

subsection \<open>Literal texts of the source\<close>

definition txt_cant_interact :: string where
  "txt_cant_interact = ''You can't interact with this button.''"

definition txt_not_logged_in :: string where
  "txt_not_logged_in = ''You are not logged in. Please use /login first.''"

definition txt_already_linked :: string where
  "txt_already_linked = ''An account is already linked to this group. Please use /unlink to remove the current account before logging in with a new one.''"

definition txt_no_account :: string where
  "txt_no_account = ''No account is currently linked to this group.''"

definition txt_unlinked :: string where
  "txt_unlinked = ''The account has been unlinked successfully. You can now log in with a new account using /login.''"

definition txt_failed_unlink :: string where
  "txt_failed_unlink = ''Failed to unlink the account. Please try again.''"

definition txt_no_groups :: string where
  "txt_no_groups = ''You are not part of any groups.''"

definition txt_here_groups :: string where
  "txt_here_groups = ''Here are your groups:''"

definition txt_select_default :: string where
  "txt_select_default = ''Select a group to set as default:''"

definition txt_failed_groups :: string where
  "txt_failed_groups = ''Failed to fetch groups. Please try again.''"

definition txt_no_default_group :: string where
  "txt_no_default_group = ''No default group is set. Please use /setgroup first.''"

definition txt_enter_description :: string where
  "txt_enter_description = ''Please enter a description for the expense:''"

definition txt_failed_group_details :: string where
  "txt_failed_group_details = ''Failed to fetch group details. Please try again.''"

definition txt_error_occurred :: string where
  "txt_error_occurred = ''An error occurred. Please try again.''"

definition txt_failed_set_default :: string where
  "txt_failed_set_default = ''Failed to set default group. Please try again.''"

definition txt_failed_create :: string where
  "txt_failed_create = ''Failed to create expense. Please try again.''"

definition txt_failed_members :: string where
  "txt_failed_members = ''Failed to fetch group members. Please try again.''"

definition txt_select_members :: string where
  "txt_select_members = ''Select members to split the expense with:''"

definition txt_error_selecting :: string where
  "txt_error_selecting = ''An error occurred while selecting members. Please try again.''"

definition txt_no_members_selected :: string where
  "txt_no_members_selected = ''No members selected. Please select at least one member.''"

definition txt_invalid_description :: string where
  "txt_invalid_description = ''Invalid description. Please enter a valid description.''"

definition txt_enter_amount :: string where
  "txt_enter_amount = ''Please enter the amount for the expense (e.g., 10 USD or 10, default is SGD):''"

definition txt_invalid_amount :: string where
  "txt_invalid_amount = ''Invalid amount. Please enter a valid positive number with an optional currency code (e.g., 100 USD or 100).''"

definition txt_invalid_positive :: string where
  "txt_invalid_positive = ''Invalid amount. Please enter a valid positive number.''"

definition txt_split_equally :: string where
  "txt_split_equally = ''Split equally?''"

definition txt_expired :: string where
  "txt_expired = ''The session has expired. Please try again if needed.''"

text \<open>
  The mark of a selected member: the string literal of line 835 of the source, byte for
  byte (the UTF-8 of U+2705 once read as Windows-1252 and encoded again).
\<close>

definition check_mark :: string where
  "check_mark = [CHR 0xC3, CHR 0xA2, CHR 0xC5, CHR 0x93, CHR 0xE2, CHR 0x80, CHR 0xA6]"

subsection \<open>Helpers on session objects\<close>

text \<open>\<^verbatim>\<open>session.messageIds || []\<close>.\<close>

definition recorded :: "session \<Rightarrow> msg_id list" where
  "recorded s = (case messageIds s of None \<Rightarrow> [] | Some ms \<Rightarrow> ms)"

text \<open>
  \<^verbatim>\<open>if (!session.messageIds) session.messageIds = []; session.messageIds.push(id)\<close>.
\<close>

definition push_id :: "session \<Rightarrow> msg_id \<Rightarrow> session" where
  "push_id s m = s\<lparr>messageIds := Some (recorded s @ [m])\<rparr>"

text \<open>
  \<^verbatim>\<open>session.messageIds.push(id)\<close> inside a \<^verbatim>\<open>.then\<close> callback: without the array the
  callback throws and nothing is written.
\<close>

definition push_existing :: "session \<Rightarrow> msg_id \<Rightarrow> session" where
  "push_existing s m =
     (case messageIds s of None \<Rightarrow> s | Some ms \<Rightarrow> s\<lparr>messageIds := Some (ms @ [m])\<rparr>)"

definition update_session :: "state \<Rightarrow> chat_id \<Rightarrow> (session \<Rightarrow> session) \<Rightarrow> state" where
  "update_session st chatId f =
     st\<lparr>userSessions := (userSessions st)(chatId := map_option f (userSessions st chatId))\<rparr>"

text \<open>A \<^verbatim>\<open>.then\<close> callback on a \<^verbatim>\<open>sendMessage\<close>: it runs when the send succeeded.\<close>

definition then_push :: "env \<Rightarrow> state \<Rightarrow> chat_id \<Rightarrow> state" where
  "then_push e st chatId =
     (case sent e of
        Rejected \<Rightarrow> st
      | Resolved m \<Rightarrow> update_session st chatId (\<lambda>s. push_existing s m))"

text \<open>A value in a template literal.\<close>

definition str_of :: "string option \<Rightarrow> string" where
  "str_of so = (case so of None \<Rightarrow> ''undefined'' | Some s \<Rightarrow> s)"

text \<open>
  \<^verbatim>\<open>if (session && session.timeout) { clearTimeout(session.timeout); delete session.timeout; }\<close>
\<close>

definition clearSessionTimeout :: "state \<Rightarrow> chat_id \<Rightarrow> state" where
  "clearSessionTimeout st chatId =
     (case userSessions st chatId of
        None \<Rightarrow> st
      | Some s \<Rightarrow>
          (case timeout s of
             None \<Rightarrow> st
           | Some t \<Rightarrow>
               st\<lparr>timers := (timers st)(t := None),
                  userSessions := (userSessions st)(chatId \<mapsto> s\<lparr>timeout := None\<rparr>)\<rparr>))"

subsection \<open>cleanUpSession and setButtonTimeout\<close>

text \<open>
  \<^verbatim>\<open>cleanUpSession\<close> (lines 113-138): a failed \<^verbatim>\<open>deleteMessage\<close> is caught and logged, so
  every recorded id is tried, in order.
\<close>

definition cleanUpSession :: "state \<Rightarrow> chat_id \<Rightarrow> state \<times> effect list" where
  "cleanUpSession st chatId =
     (case userSessions st chatId of
        None \<Rightarrow> (st, [])
      | Some session \<Rightarrow>
          (let st1 = clearSessionTimeout st chatId
           in (st1\<lparr>userSessions := (userSessions st1)(chatId := None)\<rparr>,
               map (DeleteMessage chatId) (recorded session))))"

text \<open>
  \<^verbatim>\<open>setButtonTimeout\<close> (lines 140-193). Without a session in the store the function
  stores \<^verbatim>\<open>{timeout}\<close> and then throws at \<^verbatim>\<open>session.messageIds\<close>; the timer is pending
  by then.
\<close>

definition setButtonTimeout :: "state \<Rightarrow> chat_id \<Rightarrow> msg_id \<Rightarrow> state \<times> completion" where
  "setButtonTimeout st chatId messageId =
     (let st1 = clearSessionTimeout st chatId;
          t = nextTimer st1;
          st2 = st1\<lparr>timers := (timers st1)(t \<mapsto>
                       \<lparr>t_chat = chatId, t_message = messageId,
                        t_session = map_option oid (userSessions st chatId)\<rparr>),
                    nextTimer := Suc t\<rparr>
      in case userSessions st2 chatId of
           None \<Rightarrow>
             (st2\<lparr>userSessions := (userSessions st2)(chatId \<mapsto>
                      (empty_object (nextObject st2))\<lparr>timeout := Some t\<rparr>),
                  nextObject := Suc (nextObject st2)\<rparr>, Threw)
         | Some s \<Rightarrow>
             (st2\<lparr>userSessions := (userSessions st2)(chatId \<mapsto>
                      push_id (s\<lparr>timeout := Some t\<rparr>) messageId)\<rparr>, Completed))"

text \<open>
  The callback of the timer (lines 150-184), run on the state in which the timer is no
  longer pending. The edit and the deletion of the armed message share one
  \<^verbatim>\<open>try\<close>; the \<^verbatim>\<open>sendMessage\<close> of the notice is awaited outside of it. The notice's
  id is pushed on the captured session object, which is the stored one when their
  identities agree, and \<^verbatim>\<open>userSessions[chatId]\<close> is deleted.
\<close>

definition onExpire :: "env \<Rightarrow> state \<Rightarrow> timer \<Rightarrow> result" where
  "onExpire e st tm =
     (let chatId = t_chat tm;
          strip = EditMessageReplyMarkup chatId (t_message tm) [] #
                  (if editOk e then [DeleteMessage chatId (t_message tm)] else []);
          notice = SendMessage chatId (Text txt_expired) None
      in case sent e of
           Rejected \<Rightarrow> (st, strip @ [notice], Threw)
         | Resolved expiredMessage \<Rightarrow>
             (case t_session tm of
                None \<Rightarrow> (st, strip @ [notice], Threw)
              | Some captured \<Rightarrow>
                  (let st1 = update_session st chatId
                               (\<lambda>s. if oid s = captured then push_id s expiredMessage else s)
                   in (st1\<lparr>userSessions := (userSessions st1)(chatId := None)\<rparr>,
                       strip @ [notice], Completed))))"

text \<open>The runtime fires a pending timer: it leaves the pending set and its callback runs.\<close>

definition fire :: "env \<Rightarrow> state \<Rightarrow> timer_id \<Rightarrow> result" where
  "fire e st t =
     (case timers st t of
        None \<Rightarrow> (st, [], Completed)
      | Some tm \<Rightarrow> onExpire e (st\<lparr>timers := (timers st)(t := None)\<rparr>) tm)"

subsection \<open>The command handlers\<close>

text \<open>\<^verbatim>\<open>bot.onText(/\/login/, ...)\<close> (lines 195-227).\<close>

definition login_cmd :: "env \<Rightarrow> state \<Rightarrow> chat_id \<Rightarrow> user_id \<Rightarrow> result" where
  "login_cmd e st chatId user =
     (let (st1, fx) = cleanUpSession st chatId
      in case findOne e of
           Rejected \<Rightarrow> (st1, fx, Threw)
         | Resolved row \<Rightarrow>
             if truthy (map_option accessToken row)
             then (st1, fx @ [SendMessage chatId (Text txt_already_linked) None], Returned)
             else
               (case sent e of
                  Rejected \<Rightarrow> (st1, fx @ [SendMessage chatId (LoginLink chatId) None], Completed)
                | Resolved m \<Rightarrow>
                    (st1\<lparr>userSessions := (userSessions st1)(chatId \<mapsto>
                            (empty_object (nextObject st1))\<lparr>loginMessageId := Some m\<rparr>),
                         nextObject := Suc (nextObject st1)\<rparr>,
                     fx @ [SendMessage chatId (LoginLink chatId) None], Completed)))"

definition group_buttons :: "string \<Rightarrow> group list \<Rightarrow> keyboard" where
  "group_buttons pre gs =
     map (\<lambda>g. [\<lparr>label = group_name g, callback_data = pre @ show_int (group_id g)\<rparr>]) gs"

text \<open>
  The \<^verbatim>\<open>/group\<close> handler from its \<^verbatim>\<open>fetch\<close> on (lines 276-315), with the access token
  it loaded before.
\<close>

definition group_cmd_resume ::
  "env \<Rightarrow> state \<Rightarrow> chat_id \<Rightarrow> user_id \<Rightarrow> string option \<Rightarrow> result" where
  "group_cmd_resume e st chatId user tok =
     (let failed = SendMessage chatId (Text txt_failed_groups) None
      in case getGroups e of
           Rejected \<Rightarrow> (st, [GetGroups tok, failed], Completed)
         | Resolved gso \<Rightarrow>
             (case gso of
                None \<Rightarrow> (st, [GetGroups tok, SendMessage chatId (Text txt_no_groups) None], Returned)
              | Some gs \<Rightarrow>
                  if gs = []
                  then (st, [GetGroups tok, SendMessage chatId (Text txt_no_groups) None], Returned)
                  else
                    (let st1 = st\<lparr>userSessions := (userSessions st)(chatId \<mapsto>
                                      (empty_object (nextObject st))
                                        \<lparr>userId := Some user, messageIds := Some []\<rparr>),
                                   nextObject := Suc (nextObject st)\<rparr>;
                         list = SendMessage chatId (Text txt_here_groups)
                                  (Some (group_buttons ''group_'' gs))
                     in case sent e of
                          Rejected \<Rightarrow> (st1, [GetGroups tok, list, failed], Completed)
                        | Resolved m \<Rightarrow>
                            (let st2 = update_session st1 chatId (\<lambda>s. push_existing s m);
                                 (st3, c) = setButtonTimeout st2 chatId m
                             in (st3, [GetGroups tok, list] @ (if c = Threw then [failed] else []),
                                 Completed)))))"

text \<open>\<^verbatim>\<open>bot.onText(/\/group/, ...)\<close> (lines 258-316), from its first statement.\<close>

definition group_cmd :: "env \<Rightarrow> state \<Rightarrow> chat_id \<Rightarrow> user_id \<Rightarrow> result" where
  "group_cmd e st chatId user =
     (let (st1, fx) = cleanUpSession st chatId
      in if \<not> truthy (loadToken e)
         then (st1, fx @ [SendMessage chatId (Text txt_not_logged_in) None], Returned)
         else (let (st2, fx2, c) = group_cmd_resume e st1 chatId user (loadToken e)
               in (st2, fx @ fx2, c)))"

text \<open>\<^verbatim>\<open>bot.onText(/\/setgroup/, ...)\<close> (lines 318-377).\<close>

definition setgroup_cmd :: "env \<Rightarrow> state \<Rightarrow> chat_id \<Rightarrow> user_id \<Rightarrow> result" where
  "setgroup_cmd e st chatId user =
     (let (st1, fx) = cleanUpSession st chatId;
          tok = loadToken e;
          failed = SendMessage chatId (Text txt_failed_groups) None
      in if \<not> truthy tok
         then (st1, fx @ [SendMessage chatId (Text txt_not_logged_in) None], Returned)
         else
           (case getGroups e of
              Rejected \<Rightarrow> (st1, fx @ [GetGroups tok, failed], Completed)
            | Resolved gso \<Rightarrow>
                (case gso of
                   None \<Rightarrow>
                     (st1, fx @ [GetGroups tok, SendMessage chatId (Text txt_no_groups) None],
                      Returned)
                 | Some gs \<Rightarrow>
                     if gs = []
                     then (st1, fx @ [GetGroups tok, SendMessage chatId (Text txt_no_groups) None],
                           Returned)
                     else
                       (let st2 = st1\<lparr>userSessions := (userSessions st1)(chatId \<mapsto>
                                         (empty_object (nextObject st1))
                                           \<lparr>userId := Some user, groups := Some gs,
                                            messageIds := Some []\<rparr>),
                                       nextObject := Suc (nextObject st1)\<rparr>;
                            list = SendMessage chatId (Text txt_select_default)
                                     (Some (group_buttons ''setgroup_'' gs))
                        in case sent e of
                             Rejected \<Rightarrow> (st2, fx @ [GetGroups tok, list, failed], Completed)
                           | Resolved m \<Rightarrow>
                               (update_session st2 chatId (\<lambda>s. push_existing s m),
                                fx @ [GetGroups tok, list], Completed)))))"

text \<open>The session object that opens the expense wizard (lines 410-415 and 630-635).\<close>

definition expense_session :: "nat \<Rightarrow> string option \<Rightarrow> user_id \<Rightarrow> session" where
  "expense_session n gid user =
     (empty_object n)\<lparr>step := Some awaiting_description, groupId := gid,
                       userId := Some user, messageIds := Some []\<rparr>"

text \<open>\<^verbatim>\<open>bot.onText(/\/expense/, ...)\<close> (lines 379-422).\<close>

definition expense_cmd :: "env \<Rightarrow> state \<Rightarrow> chat_id \<Rightarrow> user_id \<Rightarrow> result" where
  "expense_cmd e st chatId user =
     (let (st1, fx) = cleanUpSession st chatId
      in case findOne e of
           Rejected \<Rightarrow> (st1, fx, Threw)
         | Resolved row \<Rightarrow>
             if \<not> truthy (map_option accessToken row)
             then (st1, fx @ [SendMessage chatId (Text txt_not_logged_in) None], Returned)
             else if \<not> truthy (Option.bind row defaultGroupId)
             then (st1, fx @ [SendMessage chatId (Text txt_no_default_group) None], Returned)
             else
               (let st2 = st1\<lparr>userSessions := (userSessions st1)(chatId \<mapsto>
                                 expense_session (nextObject st1)
                                   (Option.bind row defaultGroupId) user),
                               nextObject := Suc (nextObject st1)\<rparr>
                in (then_push e st2 chatId,
                    fx @ [SendMessage chatId (Text txt_enter_description) None], Completed)))"

text \<open>\<^verbatim>\<open>bot.onText(/\/unlink/, ...)\<close> (lines 229-256).\<close>

definition unlink_cmd :: "env \<Rightarrow> state \<Rightarrow> chat_id \<Rightarrow> result" where
  "unlink_cmd e st chatId =
     (let (st1, fx) = cleanUpSession st chatId
      in case findOne e of
           Rejected \<Rightarrow> (st1, fx, Threw)
         | Resolved row \<Rightarrow>
             if \<not> truthy (map_option accessToken row)
             then (st1, fx @ [SendMessage chatId (Text txt_no_account) None], Returned)
             else if tokenDestroy e
             then (st1, fx @ [DestroyToken chatId, SendMessage chatId (Text txt_unlinked) None],
                   Completed)
             else (st1, fx @ [DestroyToken chatId,
                              SendMessage chatId (Text txt_failed_unlink) None], Completed))"

text \<open>
  \<^verbatim>\<open>bot.onText(/\/balance/, ...)\<close> (lines 424-503). Both reads of the token row give
  \<open>findOne\<close>.
\<close>

definition balance_cmd :: "env \<Rightarrow> state \<Rightarrow> chat_id \<Rightarrow> user_id \<Rightarrow> result" where
  "balance_cmd e st chatId user =
     (let (st1, fx) = cleanUpSession st chatId;
          tok = loadToken e;
          failed = SendMessage chatId (Text txt_failed_group_details) None
      in if \<not> truthy tok
         then (st1, fx @ [SendMessage chatId (Text txt_not_logged_in) None], Returned)
         else
           (case findOne e of
              Rejected \<Rightarrow> (st1, fx @ [failed], Completed)
            | Resolved row \<Rightarrow>
                if \<not> truthy (Option.bind row defaultGroupId)
                then (st1, fx @ [SendMessage chatId (Text txt_no_default_group) None], Returned)
                else
                  (case getGroup e of
                     Rejected \<Rightarrow>
                       (st1, fx @ [GetGroup tok (Option.bind row defaultGroupId), failed], Completed)
                   | Resolved None \<Rightarrow>
                       (st1, fx @ [GetGroup tok (Option.bind row defaultGroupId), failed], Completed)
                   | Resolved (Some g) \<Rightarrow>
                       (st1, fx @ [GetGroup tok (Option.bind row defaultGroupId),
                                   SendMessage chatId (GroupBalances g) None], Completed))))"

subsection \<open>The button-press handler\<close>

text \<open>
  A button press: \<^verbatim>\<open>callbackQuery.id\<close>, \<^verbatim>\<open>.message.chat.id\<close>, \<^verbatim>\<open>.message.message_id\<close>,
  \<^verbatim>\<open>.from.id\<close> and \<^verbatim>\<open>.data\<close>.
\<close>

record callback_query =
  cq_id :: string
  cq_chat :: chat_id
  cq_message :: msg_id
  cq_from :: user_id
  cq_data :: string

text \<open>The \<^verbatim>\<open>group_\<close> branch (lines 533-623).\<close>

definition on_group :: "env \<Rightarrow> state \<Rightarrow> callback_query \<Rightarrow> result" where
  "on_group e st cq =
     (let chatId = cq_chat cq;
          gid = segment 1 (cq_data cq);
          tok = loadToken e;
          fetch = GetGroup tok gid;
          edit = EditMessageReplyMarkup chatId (cq_message cq) [];
          failed = SendMessage chatId (Text txt_failed_group_details) None
      in if \<not> truthy tok
         then (st, [SendMessage chatId (Text txt_not_logged_in) None], Returned)
         else
           (case getGroup e of
              Rejected \<Rightarrow> (st, [fetch, failed], Completed)
            | Resolved go \<Rightarrow>
                if \<not> editOk e then (st, [fetch, edit, failed], Completed)
                else
                  (case userSessions st chatId of
                     None \<Rightarrow> (st, [fetch, edit, failed], Completed)
                   | Some session \<Rightarrow>
                       (let st1 = update_session st chatId (\<lambda>s. push_id s (cq_message cq))
                        in case go of
                             None \<Rightarrow> (st1, [fetch, edit, failed], Completed)
                           | Some g \<Rightarrow>
                               (let info = SendMessage chatId (GroupInfo g)
                                      (Some [[\<lparr>label = ''Create expense in group'',
                                               callback_data = ''createExpense_'' @ str_of gid\<rparr>]])
                                in case sent e of
                                     Rejected \<Rightarrow> (st1, [fetch, edit, info, failed], Completed)
                                   | Resolved m \<Rightarrow>
                                       (let st2 = update_session st1 chatId (\<lambda>s. push_id s m);
                                            (st3, c) = setButtonTimeout st2 chatId m
                                        in (st3,
                                            [fetch, edit, info] @ (if c = Threw then [failed] else []),
                                            Completed)))))))"

text \<open>The \<^verbatim>\<open>createExpense_\<close> branch (lines 624-641).\<close>

definition on_createExpense :: "env \<Rightarrow> state \<Rightarrow> callback_query \<Rightarrow> result" where
  "on_createExpense e st cq =
     (let chatId = cq_chat cq;
          st1 = st\<lparr>userSessions := (userSessions st)(chatId \<mapsto>
                       expense_session (nextObject st) (segment 1 (cq_data cq)) (cq_from cq)),
                    nextObject := Suc (nextObject st)\<rparr>
      in (then_push e st1 chatId,
          [SendMessage chatId (Text txt_enter_description) None], Completed))"

text \<open>
  The \<^verbatim>\<open>setgroup_\<close> branch (lines 642-694). \<^verbatim>\<open>session.groups.find\<close> stands outside of
  the \<^verbatim>\<open>try\<close>: without a session, or with a session that has no \<^verbatim>\<open>groups\<close>, it throws.
\<close>

definition on_setgroup :: "env \<Rightarrow> state \<Rightarrow> callback_query \<Rightarrow> result" where
  "on_setgroup e st cq =
     (let chatId = cq_chat cq;
          gid = segment 1 (cq_data cq);
          failed = SendMessage chatId (Text txt_failed_set_default) None
      in case userSessions st chatId of
           None \<Rightarrow> (st, [], Threw)
         | Some session \<Rightarrow>
             (case groups session of
                None \<Rightarrow> (st, [], Threw)
              | Some gs \<Rightarrow>
                  (case find (\<lambda>g. Some (show_int (group_id g)) = gid) gs of
                     None \<Rightarrow> (st, [SendMessage chatId (Text txt_error_occurred) None], Returned)
                   | Some selectedGroup \<Rightarrow>
                       (case findOne e of
                          Rejected \<Rightarrow> (st, [failed], Completed)
                        | Resolved None \<Rightarrow>
                            (st, [SendMessage chatId (Text txt_not_logged_in) None], Completed)
                        | Resolved (Some token) \<Rightarrow>
                            if \<not> tokenSave e
                            then (st, [SaveDefaultGroup chatId gid, failed], Completed)
                            else
                              (st\<lparr>userSessions := (userSessions st)(chatId := None)\<rparr>,
                               [SaveDefaultGroup chatId gid,
                                SendMessage chatId (DefaultGroupSet (group_name selectedGroup)) None]
                               @ map (DeleteMessage chatId) (recorded session),
                               Completed)))))"

text \<open>
  What the two submitting branches do with the reply of \<^verbatim>\<open>create_expense\<close>
  (lines 723-745 and 942-970): one message.
\<close>

definition report_expense :: "env \<Rightarrow> chat_id \<Rightarrow> jsnum \<Rightarrow> string option \<Rightarrow> effect" where
  "report_expense e chatId a cur =
     (case createExpense e of
        Rejected \<Rightarrow> SendMessage chatId (Text txt_failed_create) None
      | Resolved (ExpenseErrors base) \<Rightarrow> SendMessage chatId (ExpenseFailed base) None
      | Resolved ExpenseSaved \<Rightarrow> SendMessage chatId (ExpenseCreated (toFixed2 a) cur) None
      | Resolved ExpenseUnknown \<Rightarrow> SendMessage chatId (Text txt_failed_create) None)"

text \<open>
  The \<^verbatim>\<open>splitEquallyYes\<close> branch (lines 695-760). Destructuring a missing session
  throws before the \<^verbatim>\<open>try\<close>; \<^verbatim>\<open>amount.toFixed\<close> on a session without an amount throws
  inside of it, before the request is made.
\<close>

definition on_splitEquallyYes :: "env \<Rightarrow> state \<Rightarrow> callback_query \<Rightarrow> result" where
  "on_splitEquallyYes e st cq =
     (let chatId = cq_chat cq
      in case userSessions st chatId of
           None \<Rightarrow> (st, [], Threw)
         | Some userSession \<Rightarrow>
             (st\<lparr>userSessions := (userSessions st)(chatId := None)\<rparr>,
              (case amount userSession of
                 None \<Rightarrow> [SendMessage chatId (Text txt_failed_create) None]
               | Some a \<Rightarrow>
                   [CreateExpense (loadToken e)
                      \<lparr>p_cost = toFixed2 a, p_description = description userSession,
                       p_currency_code = currencyCode userSession, p_category_id = 15,
                       p_group_id = groupId userSession, p_split_equally = True, p_users = []\<rparr>,
                    report_expense e chatId a (currencyCode userSession)])
              @ map (DeleteMessage chatId) (recorded userSession),
              Completed))"

definition member_buttons :: "(member \<Rightarrow> string) \<Rightarrow> member list \<Rightarrow> keyboard" where
  "member_buttons lab ms =
     map (\<lambda>(idx, m). [\<lparr>label = lab m, callback_data = ''toggle_member_'' @ show_nat idx\<rparr>])
         (enumerate 0 ms)
     @ [[\<lparr>label = ''Submit'', callback_data = ''submit_selected_members''\<rparr>]]"

text \<open>The \<^verbatim>\<open>splitEquallyNo\<close> branch (lines 761-806).\<close>

definition on_splitEquallyNo :: "env \<Rightarrow> state \<Rightarrow> callback_query \<Rightarrow> result" where
  "on_splitEquallyNo e st cq =
     (let chatId = cq_chat cq;
          failed = SendMessage chatId (Text txt_failed_members) None
      in case userSessions st chatId of
           None \<Rightarrow> (st, [], Threw)
         | Some userSession \<Rightarrow>
             (let fetch = GetGroup (loadToken e) (groupId userSession)
              in case getGroup e of
                   Rejected \<Rightarrow> (st, [fetch, failed], Completed)
                 | Resolved None \<Rightarrow> (st, [fetch, failed], Completed)
                 | Resolved (Some g) \<Rightarrow>
                     (let st1 = update_session st chatId
                                  (\<lambda>s. s\<lparr>members := Some (group_members g),
                                          selectedMembers := Some []\<rparr>)
                      in (then_push e st1 chatId,
                          [fetch,
                           SendMessage chatId (Text txt_select_members)
                             (Some (member_buttons (\<lambda>m. first_name m @ '' '' @ last_name m)
                                      (group_members g)))],
                          Completed))))"

text \<open>
  \<^verbatim>\<open>members[memberIdx]\<close> for the number \<^verbatim>\<open>parseInt\<close> gave: \<open>None\<close> when the index is
  \<^verbatim>\<open>NaN\<close>, negative or beyond the array.
\<close>

definition member_at :: "member list \<Rightarrow> int option \<Rightarrow> member option" where
  "member_at ms io =
     (case io of
        None \<Rightarrow> None
      | Some i \<Rightarrow> if 0 \<le> i \<and> nat i < length ms then Some (ms ! nat i) else None)"

text \<open>
  \<^verbatim>\<open>indexOf\<close>, then \<^verbatim>\<open>splice(selectedIndex, 1)\<close> of the first occurrence or \<^verbatim>\<open>push\<close>.
\<close>

definition toggle :: "int \<Rightarrow> int list \<Rightarrow> int list" where
  "toggle memberId sel = (if memberId \<in> set sel then remove1 memberId sel else sel @ [memberId])"

text \<open>
  The \<^verbatim>\<open>toggle_member_\<close> branch (lines 807-851). The edit of the keyboard is not
  awaited.
\<close>

definition on_toggle_member :: "env \<Rightarrow> state \<Rightarrow> callback_query \<Rightarrow> result" where
  "on_toggle_member e st cq =
     (let chatId = cq_chat cq
      in case userSessions st chatId of
           None \<Rightarrow> (st, [SendMessage chatId (Text txt_error_occurred) None], Returned)
         | Some userSession \<Rightarrow>
             (case members userSession of
                None \<Rightarrow> (st, [], Threw)
              | Some ms \<Rightarrow>
                  (case member_at ms (parseInt10 (segment 2 (cq_data cq))) of
                     None \<Rightarrow> (st, [], Returned)
                   | Some m \<Rightarrow>
                       (case selectedMembers userSession of
                          None \<Rightarrow> (st, [], Threw)
                        | Some sel \<Rightarrow>
                            (let sel' = toggle (member_id m) sel
                             in (update_session st chatId (\<lambda>s. s\<lparr>selectedMembers := Some sel'\<rparr>),
                                 [EditMessageReplyMarkup chatId (cq_message cq)
                                    (member_buttons
                                       (\<lambda>m. first_name m @ '' '' @ last_name m @ '' ''
                                            @ (if member_id m \<in> set sel' then check_mark else []))
                                       ms)],
                                 Completed))))))"

text \<open>
  \<^verbatim>\<open>usersPayload\<close> (lines 899-916): for the selected id at position \<open>index\<close> that the
  roster knows, the three keys \<^verbatim>\<open>users__index__user_id\<close>, \<^verbatim>\<open>__paid_share\<close> and
  \<^verbatim>\<open>__owed_share\<close>.
\<close>

definition usersPayload ::
  "jsnum \<Rightarrow> member list \<Rightarrow> int list \<Rightarrow> (nat \<times> int \<times> fixed \<times> fixed) list" where
  "usersPayload a ms sel =
     concat (map (\<lambda>(index, memberId).
                    case find (\<lambda>m. member_id m = memberId) ms of
                      None \<Rightarrow> []
                    | Some m \<Rightarrow>
                        [(index, memberId, toFixed2 (js_div a (length sel)),
                          toFixed2 (js_div a (length sel)))])
                 (enumerate 0 sel))"

text \<open>
  The \<^verbatim>\<open>submit_selected_members\<close> branch (lines 852-986). With a selection and no
  roster, \<^verbatim>\<open>members.find\<close> throws inside the \<^verbatim>\<open>try\<close>; so does \<^verbatim>\<open>amount.toFixed\<close>
  without an amount; the request is not made then.
\<close>

definition on_submit :: "env \<Rightarrow> state \<Rightarrow> callback_query \<Rightarrow> result" where
  "on_submit e st cq =
     (let chatId = cq_chat cq
      in case userSessions st chatId of
           None \<Rightarrow> (st, [SendMessage chatId (Text txt_error_occurred) None], Returned)
         | Some userSession \<Rightarrow>
             (case selectedMembers userSession of
                None \<Rightarrow> (st, [SendMessage chatId (Text txt_error_selecting) None], Returned)
              | Some sel \<Rightarrow>
                  if sel = []
                  then (st, [SendMessage chatId (Text txt_no_members_selected) None], Returned)
                  else
                    (st\<lparr>userSessions := (userSessions st)(chatId := None)\<rparr>,
                     (case (members userSession, amount userSession) of
                        (Some ms, Some a) \<Rightarrow>
                          [CreateExpense (loadToken e)
                             \<lparr>p_cost = toFixed2 a, p_description = description userSession,
                              p_currency_code = currencyCode userSession, p_category_id = 15,
                              p_group_id = groupId userSession, p_split_equally = False,
                              p_users = usersPayload a ms sel\<rparr>,
                           report_expense e chatId a (currencyCode userSession)]
                      | _ \<Rightarrow> [SendMessage chatId (Text txt_failed_create) None])
                     @ map (DeleteMessage chatId) (recorded userSession),
                     Completed)))"

text \<open>The chain of \<^verbatim>\<open>if\<close> / \<^verbatim>\<open>else if\<close> on \<^verbatim>\<open>data\<close> (lines 533-986), in its order.\<close>

definition dispatch :: "env \<Rightarrow> state \<Rightarrow> callback_query \<Rightarrow> result" where
  "dispatch e st cq =
     (let d = cq_data cq
      in if startsWith d ''group_'' then on_group e st cq
         else if startsWith d ''createExpense_'' then on_createExpense e st cq
         else if startsWith d ''setgroup_'' then on_setgroup e st cq
         else if d = ''splitEquallyYes'' then on_splitEquallyYes e st cq
         else if d = ''splitEquallyNo'' then on_splitEquallyNo e st cq
         else if startsWith d ''toggle_member_'' then on_toggle_member e st cq
         else if d = ''submit_selected_members'' then on_submit e st cq
         else (st, [], Completed))"

text \<open>
  \<^verbatim>\<open>bot.on("callback_query", ...)\<close> (lines 505-989): the timeout of the session is
  cleared, the press of another user than \<^verbatim>\<open>session.userId\<close> is answered with an alert,
  the branch for \<^verbatim>\<open>data\<close> runs, and a branch that reaches the end of the chain is
  followed by \<^verbatim>\<open>bot.answerCallbackQuery(callbackQuery.id)\<close>.
\<close>

definition callback_query_handler :: "env \<Rightarrow> state \<Rightarrow> callback_query \<Rightarrow> result" where
  "callback_query_handler e st cq =
     (let st1 = clearSessionTimeout st (cq_chat cq);
          foreign = (case userSessions st1 (cq_chat cq) of
                       None \<Rightarrow> False
                     | Some session \<Rightarrow> userId session \<noteq> Some (cq_from cq))
      in if foreign
         then (st1, [AnswerCallbackQuery (cq_id cq) (Some txt_cant_interact) True], Returned)
         else
           (let (st2, fx, c) = dispatch e st1 cq
            in if c = Completed then (st2, fx @ [AnswerCallbackQuery (cq_id cq) None False], Completed)
               else (st2, fx, c)))"

subsection \<open>The free-text handler\<close>

record message =
  m_chat :: chat_id
  m_from :: user_id
  m_id :: msg_id
  m_text :: "string option"

text \<open>
  \<^verbatim>\<open>bot.on("message", ...)\<close> (lines 991-1072). \<open>m_text\<close> is \<open>None\<close> for a message
  without text, on which \<^verbatim>\<open>msg.text.trim()\<close> throws.
\<close>

definition message_handler :: "env \<Rightarrow> state \<Rightarrow> message \<Rightarrow> result" where
  "message_handler e st msg =
     (let chatId = m_chat msg
      in case userSessions st chatId of
           None \<Rightarrow> (st, [], Completed)
         | Some userSession \<Rightarrow>
             if userId userSession \<noteq> Some (m_from msg) then (st, [], Completed)
             else
               (let st1 = update_session st chatId (\<lambda>s. push_id s (m_id msg))
                in if step userSession = Some awaiting_description
                   then
                     (case m_text msg of
                        None \<Rightarrow> (st1, [], Threw)
                      | Some t \<Rightarrow>
                          if trim t = []
                          then (st1, [SendMessage chatId (Text txt_invalid_description) None],
                                Returned)
                          else
                            (then_push e
                               (update_session st1 chatId
                                  (\<lambda>s. s\<lparr>description := Some (trim t),
                                          step := Some awaiting_amount\<rparr>))
                               chatId,
                             [SendMessage chatId (Text txt_enter_amount) None], Completed))
                   else if step userSession = Some awaiting_amount
                   then
                     (case m_text msg of
                        None \<Rightarrow> (st1, [], Threw)
                      | Some t \<Rightarrow>
                          (case match_amount (trim t) of
                             None \<Rightarrow>
                               (st1, [SendMessage chatId (Text txt_invalid_amount) None], Returned)
                           | Some (num, cur) \<Rightarrow>
                               if (case parseFloat num of Num x \<Rightarrow> x \<le> 0 | Infinity \<Rightarrow> False)
                               then (st1, [SendMessage chatId (Text txt_invalid_positive) None],
                                     Returned)
                               else
                                 (then_push e
                                    (update_session st1 chatId
                                       (\<lambda>s. s\<lparr>amount := Some (parseFloat num),
                                               currencyCode :=
                                                 Some (case cur of None \<Rightarrow> ''SGD'' | Some c \<Rightarrow> c),
                                               step := Some splitEqually\<rparr>))
                                    chatId,
                                  [SendMessage chatId (Text txt_split_equally)
                                     (Some [[\<lparr>label = ''Yes'', callback_data = ''splitEquallyYes''\<rparr>],
                                            [\<lparr>label = ''No'', callback_data = ''splitEquallyNo''\<rparr>]])],
                                  Completed)))
                   else (st1, [], Completed)))"

subsection \<open>An example run\<close>

text \<open>
  The bot after its start, one group of three members, and an environment in which every
  call succeeds and the message that is sent gets the id \<open>m\<close>.
\<close>

definition init :: state where
  "init = \<lparr>userSessions = Map.empty, timers = Map.empty, nextTimer = 0, nextObject = 0\<rparr>"

definition trip :: group where
  "trip = \<lparr>group_id = 5, group_name = ''Trip'',
            group_members = [\<lparr>member_id = 11, first_name = ''Ann'', last_name = ''Lee''\<rparr>,
                             \<lparr>member_id = 12, first_name = ''Bob'', last_name = ''Ray''\<rparr>,
                             \<lparr>member_id = 13, first_name = ''Cy'', last_name = ''Poe''\<rparr>]\<rparr>"

definition replies :: "msg_id \<Rightarrow> env" where
  "replies m =
     \<lparr>findOne = Resolved (Some \<lparr>accessToken = ''tok'', defaultGroupId = Some ''5''\<rparr>),
      getGroups = Resolved (Some [trip]), getGroup = Resolved (Some trip),
      createExpense = Resolved ExpenseSaved, tokenSave = True, tokenDestroy = True,
      sent = Resolved m, editOk = True\<rparr>"

text \<open>The state after user 7 sent \<^verbatim>\<open>/group\<close> in chat 1 and the list got the id 100.\<close>

definition listed :: state where
  "listed =
     \<lparr>userSessions = [1 \<mapsto> (empty_object 0)\<lparr>timeout := Some 0, messageIds := Some [100, 100],
                                              userId := Some 7\<rparr>],
      timers = [0 \<mapsto> \<lparr>t_chat = 1, t_message = 100, t_session = Some 0\<rparr>],
      nextTimer = 1, nextObject = 1\<rparr>"

definition say :: "msg_id \<Rightarrow> string \<Rightarrow> message" where
  "say m t = \<lparr>m_chat = 1, m_from = 7, m_id = m, m_text = Some t\<rparr>"

definition press :: "user_id \<Rightarrow> msg_id \<Rightarrow> string \<Rightarrow> callback_query" where
  "press u m d = \<lparr>cq_id = ''q'', cq_chat = 1, cq_message = m, cq_from = u, cq_data = d\<rparr>"

text \<open>
  The state after user 7 then pressed the button of the group on the list and the group
  detail got the id 200.
\<close>

definition detailed :: state where
  "detailed =
     \<lparr>userSessions = [1 \<mapsto> (empty_object 0)\<lparr>timeout := Some 1,
                                              messageIds := Some [100, 100, 100, 200, 200],
                                              userId := Some 7\<rparr>],
      timers = [1 \<mapsto> \<lparr>t_chat = 1, t_message = 200, t_session = Some 0\<rparr>],
      nextTimer = 2, nextObject = 1\<rparr>"

text \<open>
  The state after two \<^verbatim>\<open>/group\<close> commands in chat 1, of the users 7 and 8, that were
  both suspended at their \<^verbatim>\<open>fetch\<close> and then resumed one after the other: the session of
  user 8 replaced the one of user 7, whose timer is still pending.
\<close>

definition overlapped :: state where
  "overlapped =
     \<lparr>userSessions = [1 \<mapsto> (empty_object 1)\<lparr>timeout := Some 1, messageIds := Some [101, 101],
                                              userId := Some 8\<rparr>],
      timers = [0 \<mapsto> \<lparr>t_chat = 1, t_message = 100, t_session = Some 0\<rparr>,
                1 \<mapsto> \<lparr>t_chat = 1, t_message = 101, t_session = Some 1\<rparr>],
      nextTimer = 2, nextObject = 2\<rparr>"

text \<open>
  The expense wizard of user 7 in chat 1: after \<^verbatim>\<open>/expense\<close> and the description
  (\<open>asked\<close>), and after the amount and the choice of a custom split, with the selection
  \<open>sel\<close> (\<open>wizard sel\<close>).
\<close>

definition asked_session :: session where
  "asked_session =
     \<lparr>oid = 0, timeout = None, messageIds = Some [300, 301, 302],
      userId = Some 7, loginMessageId = None, groups = None, step = Some awaiting_amount,
      groupId = Some ''5'', description = Some ''Dinner'', amount = None,
      currencyCode = None, members = None, selectedMembers = None\<rparr>"

definition asked :: state where
  "asked =
     \<lparr>userSessions = [1 \<mapsto> asked_session], timers = Map.empty, nextTimer = 0,
      nextObject = 1\<rparr>"

definition wizard_session :: "int list \<Rightarrow> session" where
  "wizard_session sel =
     \<lparr>oid = 0, timeout = None, messageIds = Some [300, 301, 302, 303, 304, 305],
      userId = Some 7, loginMessageId = None, groups = None, step = Some splitEqually,
      groupId = Some ''5'', description = Some ''Dinner'', amount = Some (Num 30),
      currencyCode = Some ''SGD'', members = Some (group_members trip),
      selectedMembers = Some sel\<rparr>"

definition wizard :: "int list \<Rightarrow> state" where
  "wizard sel =
     \<lparr>userSessions = [1 \<mapsto> wizard_session sel], timers = Map.empty, nextTimer = 0,
      nextObject = 1\<rparr>"

subsection \<open>Runs of handlers\<close>

text \<open>
  The inbound events: the six commands, a button press, a free-text message, and the
  firing of a timer. \<open>run\<close> gives the state after a list of events, each handled from
  the first statement of its handler to the last, with what its handler awaits. (The
  route \<^verbatim>\<open>/oauth/callback\<close> reads \<^verbatim>\<open>userSessions\<close> and writes neither it nor a timer.)
\<close>

datatype event =
    Login chat_id user_id
  | Group chat_id user_id
  | Setgroup chat_id user_id
  | Expense chat_id user_id
  | Unlink chat_id
  | Balance chat_id user_id
  | Press callback_query
  | Say message
  | Fire timer_id

definition handle :: "env \<Rightarrow> state \<Rightarrow> event \<Rightarrow> result" where
  "handle e st ev =
     (case ev of
        Login c u \<Rightarrow> login_cmd e st c u
      | Group c u \<Rightarrow> group_cmd e st c u
      | Setgroup c u \<Rightarrow> setgroup_cmd e st c u
      | Expense c u \<Rightarrow> expense_cmd e st c u
      | Unlink c \<Rightarrow> unlink_cmd e st c
      | Balance c u \<Rightarrow> balance_cmd e st c u
      | Press cq \<Rightarrow> callback_query_handler e st cq
      | Say msg \<Rightarrow> message_handler e st msg
      | Fire t \<Rightarrow> fire e st t)"

fun run :: "state \<Rightarrow> (env \<times> event) list \<Rightarrow> state" where
  "run st [] = st"
| "run st ((e, ev) # evs) = run (fst (handle e st ev)) evs"

text \<open>
  \<open>quiet st c\<close>: no timer is pending for the chat \<open>c\<close>. \<open>timely st\<close>: every pending timer
  is the one whose handle the stored session of its chat holds, and it was armed for that
  session object.
\<close>

definition quiet :: "state \<Rightarrow> chat_id \<Rightarrow> bool" where
  "quiet st c = (\<forall>t tm. timers st t = Some tm \<longrightarrow> t_chat tm \<noteq> c)"

definition timely :: "state \<Rightarrow> bool" where
  "timely st =
     (\<forall>t tm. timers st t = Some tm \<longrightarrow>
        t < nextTimer st
        \<and> (\<exists>s. userSessions st (t_chat tm) = Some s \<and> timeout s = Some t
                \<and> t_session tm = Some (oid s)))"

text \<open>
  \<open>changes_only c st st'\<close>: the two states have the same timers and the same sessions of
  the chats other than \<open>c\<close>.
\<close>

definition changes_only :: "chat_id \<Rightarrow> state \<Rightarrow> state \<Rightarrow> bool" where
  "changes_only c st st' =
     (timers st' = timers st \<and> nextTimer st' = nextTimer st
      \<and> (\<forall>c'. c' \<noteq> c \<longrightarrow> userSessions st' c' = userSessions st c'))"

subsection \<open>A predicate on calls\<close>

text \<open>The calls that answer a button press.\<close>

definition is_answer :: "effect \<Rightarrow> bool" where
  "is_answer x = (case x of AnswerCallbackQuery i tx a \<Rightarrow> True | _ \<Rightarrow> False)"

section \<open>Properties\<close>

subsection \<open>Evaluation of the example run\<close>

lemma show_int_5: "show_int 5 = ''5''"
  by code_simp

lemma listed_reached:
  "group_cmd (replies 100) init 1 7 =
     (listed, [GetGroups (Some ''tok''),
               SendMessage 1 (Text txt_here_groups)
                 (Some [[\<lparr>label = ''Trip'', callback_data = ''group_5''\<rparr>]])], Completed)"
  by (simp add: group_cmd_def group_cmd_resume_def cleanUpSession_def init_def replies_def
      loadToken_def truthy_def update_session_def push_existing_def setButtonTimeout_def
      clearSessionTimeout_def push_id_def recorded_def empty_object_def listed_def
      group_buttons_def trip_def show_int_5)

lemma segment_group_5: "segment (Suc 0) ''group_5'' = Some ''5''"
  by code_simp

lemma segment_createExpense_5: "segment (Suc 0) ''createExpense_5'' = Some ''5''"
  by code_simp

lemma trim_Dinner: "trim ''Dinner'' = ''Dinner''"
  by code_simp

lemma trim_30: "trim ''30'' = ''30''"
  by code_simp

lemma match_30: "match_amount ''30'' = Some (''30'', None)"
  by code_simp

lemma parseFloat_30: "parseFloat ''30'' = Num 30"
  by code_simp

lemma toggle_index_0: "parseInt10 (segment 2 ''toggle_member_0'') = Some 0"
  by code_simp

lemma toggle_index_1: "parseInt10 (segment 2 ''toggle_member_1'') = Some 1"
  by code_simp

lemma toggle_index_2: "parseInt10 (segment 2 ''toggle_member_2'') = Some 2"
  by code_simp


lemmas run_defs =
  cleanUpSession_def clearSessionTimeout_def setButtonTimeout_def update_session_def
  then_push_def push_id_def push_existing_def recorded_def empty_object_def
  expense_session_def loadToken_def truthy_def str_of_def Let_def
  init_def replies_def say_def press_def trip_def

text \<open>The example states are states of runs of the handlers from \<open>init\<close>.\<close>

lemma detailed_reached:
  "callback_query_handler (replies 200) listed (press 7 100 ''group_5'') =
     (detailed,
      [GetGroup (Some ''tok'') (Some ''5''), EditMessageReplyMarkup 1 100 [],
       SendMessage 1 (GroupInfo trip)
         (Some [[\<lparr>label = ''Create expense in group'', callback_data = ''createExpense_5''\<rparr>]]),
       AnswerCallbackQuery ''q'' None False],
      Completed)"
  by (simp add: callback_query_handler_def dispatch_def startsWith_def on_group_def
      listed_def detailed_def segment_group_5 run_defs)

lemma overlapped_reached:
  "cleanUpSession init 1 = (init, [])"
  "fst (group_cmd_resume (replies 100) init 1 7 (Some ''tok'')) = listed"
  "fst (group_cmd_resume (replies 101) listed 1 8 (Some ''tok'')) = overlapped"
  by (simp_all add: group_cmd_resume_def listed_def overlapped_def run_defs fun_upd_twist)

lemma asked_reached:
  "fst (message_handler (replies 302) (fst (expense_cmd (replies 300) init 1 7))
          (say 301 ''Dinner'')) = asked"
  by (simp add: expense_cmd_def message_handler_def asked_def asked_session_def
      trim_Dinner run_defs)

lemma wizard_reached:
  "fst (callback_query_handler (replies 305)
         (fst (message_handler (replies 304) asked (say 303 ''30'')))
         (press 7 304 ''splitEquallyNo'')) = wizard []"
  by (simp add: message_handler_def callback_query_handler_def dispatch_def startsWith_def
      on_splitEquallyNo_def asked_def asked_session_def wizard_def wizard_session_def
      trim_30 match_30 parseFloat_30 run_defs)

lemma wizard_selected:
  "fst (callback_query_handler (replies 0) (wizard []) (press 7 305 ''toggle_member_0''))
     = wizard [11]"
  "fst (callback_query_handler (replies 0) (wizard [11]) (press 7 305 ''toggle_member_1''))
     = wizard [11, 12]"
  "fst (callback_query_handler (replies 0) (wizard [11, 12]) (press 7 305 ''toggle_member_2''))
     = wizard [11, 12, 13]"
  by (simp_all add: callback_query_handler_def dispatch_def startsWith_def
      on_toggle_member_def member_at_def toggle_def wizard_def wizard_session_def
      toggle_index_0 toggle_index_1 toggle_index_2 run_defs)

subsection \<open>cleanUpSession\<close>

lemma cleanUpSession_removes: "userSessions (fst (cleanUpSession st c)) c = None"
  by (simp add: cleanUpSession_def clearSessionTimeout_def split: option.splits)

text \<open>
  C10. \<^verbatim>\<open>cleanUpSession\<close> for a chat without a session in the store returns the state
  as it was (the store, the sessions of the other chats, the pending timers) and attempts
  no deletion. A second run after a first one therefore changes nothing and attempts
  nothing: the routine is idempotent.
\<close>

theorem cleanUpSession_without_session_noop:
  "(userSessions st chatId = None \<longrightarrow> cleanUpSession st chatId = (st, []))
   \<and> cleanUpSession (fst (cleanUpSession st chatId)) chatId
       = (fst (cleanUpSession st chatId), [])"
proof
  show "userSessions st chatId = None \<longrightarrow> cleanUpSession st chatId = (st, [])"
    by (simp add: cleanUpSession_def)
next
  have "userSessions (fst (cleanUpSession st chatId)) chatId = None"
    by (rule cleanUpSession_removes)
  then show "cleanUpSession (fst (cleanUpSession st chatId)) chatId
             = (fst (cleanUpSession st chatId), [])"
    by (simp add: cleanUpSession_def)
qed

theorem cleanUpSession_without_session_noop_witness:
  "userSessions listed 2 = None \<and> cleanUpSession listed 2 = (listed, [])
   \<and> cleanUpSession (fst (cleanUpSession listed 1)) 1 = (fst (cleanUpSession listed 1), [])"
  using cleanUpSession_without_session_noop [of listed 2]
        cleanUpSession_without_session_noop [of listed 1]
  by (simp add: listed_def)

subsection \<open>The ownership check of the button-press handler\<close>

lemma clearSessionTimeout_session:
  "userSessions st c = Some s \<Longrightarrow>
     userSessions (clearSessionTimeout st c) c = Some (s\<lparr>timeout := None\<rparr>)"
  by (cases "timeout s") (simp_all add: clearSessionTimeout_def)

lemma clearSessionTimeout_other:
  "c' \<noteq> c \<Longrightarrow> userSessions (clearSessionTimeout st c) c' = userSessions st c'"
  by (simp add: clearSessionTimeout_def split: option.splits)

lemma clearSessionTimeout_cancels:
  "userSessions st c = Some s \<Longrightarrow> timeout s = Some t \<Longrightarrow>
     timers (clearSessionTimeout st c) t = None"
  by (simp add: clearSessionTimeout_def)

lemma foreign_press:
  assumes "userSessions st (cq_chat cq) = Some s" and "userId s \<noteq> Some (cq_from cq)"
  shows "callback_query_handler e st cq =
           (clearSessionTimeout st (cq_chat cq),
            [AnswerCallbackQuery (cq_id cq) (Some txt_cant_interact) True], Returned)"
proof -
  have "userSessions (clearSessionTimeout st (cq_chat cq)) (cq_chat cq)
        = Some (s\<lparr>timeout := None\<rparr>)"
    using assms(1) by (rule clearSessionTimeout_session)
  then show ?thesis
    using assms(2) by (simp add: callback_query_handler_def)
qed

text \<open>
  What the ownership check does keep. A button press of another user than the owner of
  the session is answered with the alert \<open>txt_cant_interact\<close> and nothing else is
  called; the stored session keeps every field but the handle of its deadline (owner,
  step, the collected fields, the recorded message ids), and the sessions of other chats
  are as before.
\<close>

theorem foreign_press_keeps_session_fields:
  assumes "userSessions st (cq_chat cq) = Some s" and "userId s \<noteq> Some (cq_from cq)"
  shows "\<exists>st'. callback_query_handler e st cq =
            (st', [AnswerCallbackQuery (cq_id cq) (Some txt_cant_interact) True], Returned)
         \<and> (\<exists>t. userSessions st' (cq_chat cq) = Some (s\<lparr>timeout := t\<rparr>))
         \<and> (\<forall>c. c \<noteq> cq_chat cq \<longrightarrow> userSessions st' c = userSessions st c)"
proof -
  let ?st1 = "clearSessionTimeout st (cq_chat cq)"
  have "userSessions ?st1 (cq_chat cq) = Some (s\<lparr>timeout := None\<rparr>)"
    using assms(1) by (rule clearSessionTimeout_session)
  then have "\<exists>t. userSessions ?st1 (cq_chat cq) = Some (s\<lparr>timeout := t\<rparr>)"
    by blast
  moreover have "\<forall>c. c \<noteq> cq_chat cq \<longrightarrow> userSessions ?st1 c = userSessions st c"
    by (simp add: clearSessionTimeout_other)
  ultimately show ?thesis
    using foreign_press [OF assms, of e] by blast
qed

theorem foreign_press_keeps_session_fields_witness:
  "userSessions listed (cq_chat (press 8 100 ''group_5''))
     = Some ((empty_object 0)\<lparr>timeout := Some 0, messageIds := Some [100, 100],
                               userId := Some 7\<rparr>)
   \<and> userId ((empty_object 0)\<lparr>timeout := Some 0, messageIds := Some [100, 100],
                               userId := Some 7\<rparr>) \<noteq> Some (cq_from (press 8 100 ''group_5''))
   \<and> (\<exists>st'. callback_query_handler (replies 200) listed (press 8 100 ''group_5'') =
              (st', [AnswerCallbackQuery ''q'' (Some txt_cant_interact) True], Returned))"
proof -
  have h: "userSessions listed (cq_chat (press 8 100 ''group_5''))
             = Some ((empty_object 0)\<lparr>timeout := Some 0, messageIds := Some [100, 100],
                                       userId := Some 7\<rparr>)"
    "userId ((empty_object 0)\<lparr>timeout := Some 0, messageIds := Some [100, 100],
                               userId := Some 7\<rparr>) \<noteq> Some (cq_from (press 8 100 ''group_5''))"
    by (simp_all add: listed_def press_def)
  show ?thesis
    using foreign_press_keeps_session_fields [OF h, of "replies 200"] h
    by (auto simp add: press_def)
qed

text \<open>
  C1 does not hold of the code: the armed deadline is not as before. In the state after
  \<^verbatim>\<open>/group\<close> of user 7, whose timer 0 is pending, a press of user 8 cancels the timer and
  removes its handle from the session, which therefore is not the record it was: the
  handler clears the timeout (lines 516-520) before it compares the users (line 522).
  Nothing arms the timer again, so the session of user 7 no longer expires.
\<close>

theorem foreign_press_cancels_deadline:
  "fst (group_cmd (replies 100) init 1 7) = listed
   \<and> userSessions listed 1
       = Some ((empty_object 0)\<lparr>timeout := Some 0, messageIds := Some [100, 100],
                                 userId := Some 7\<rparr>)
   \<and> timers listed 0 = Some \<lparr>t_chat = 1, t_message = 100, t_session = Some 0\<rparr>
   \<and> userSessions (fst (callback_query_handler (replies 200) listed (press 8 100 ''group_5''))) 1
       = Some ((empty_object 0)\<lparr>timeout := None, messageIds := Some [100, 100],
                                 userId := Some 7\<rparr>)
   \<and> timers (fst (callback_query_handler (replies 200) listed (press 8 100 ''group_5''))) 0
       = None
   \<and> userSessions (fst (callback_query_handler (replies 200) listed (press 8 100 ''group_5''))) 1
       \<noteq> userSessions listed 1"
proof -
  have "fst (group_cmd (replies 100) init 1 7) = listed"
    by (simp add: listed_reached)
  moreover have "callback_query_handler (replies 200) listed (press 8 100 ''group_5'')
      = (listed\<lparr>timers := Map.empty,
                userSessions := [1 \<mapsto> (empty_object 0)\<lparr>timeout := None,
                                   messageIds := Some [100, 100], userId := Some 7\<rparr>]\<rparr>,
         [AnswerCallbackQuery ''q'' (Some txt_cant_interact) True], Returned)"
    by (simp add: callback_query_handler_def listed_def clearSessionTimeout_def press_def
        empty_object_def)
  ultimately show ?thesis
    by (simp add: listed_def empty_object_def)
qed

subsection \<open>Toggling a member\<close>












subsection \<open>The amount\<close>

lemma trim_10: "trim ''10'' = ''10''"
  by code_simp

lemma trim_10_USD: "trim ''10 USD'' = ''10 USD''"
  by code_simp

lemma trim_minus_5: "trim ''-5'' = ''-5''"
  by code_simp

lemma trim_abc: "trim ''abc'' = ''abc''"
  by code_simp

lemma trim_empty: "trim [] = []"
  by code_simp

lemma match_10: "match_amount ''10'' = Some (''10'', None)"
  by code_simp

lemma match_10_USD: "match_amount ''10 USD'' = Some (''10'', Some ''USD'')"
  by code_simp

lemma match_minus_5: "match_amount ''-5'' = None"
  by code_simp

lemma match_abc: "match_amount ''abc'' = None"
  by code_simp

lemma match_empty: "match_amount [] = None"
  by code_simp

lemma parseFloat_10: "parseFloat ''10'' = Num 10"
  by code_simp


lemma amount_accepted:
  assumes "userSessions st (m_chat msg) = Some s" and "userId s = Some (m_from msg)"
    and "step s = Some awaiting_amount" and "m_text msg = Some t"
    and "match_amount (trim t) = Some (num, cur)" and "parseFloat num = Num x" and "0 < x"
  shows "\<exists>st'.
           message_handler e st msg =
             (st', [SendMessage (m_chat msg) (Text txt_split_equally)
                      (Some [[\<lparr>label = ''Yes'', callback_data = ''splitEquallyYes''\<rparr>],
                             [\<lparr>label = ''No'', callback_data = ''splitEquallyNo''\<rparr>]])], Completed)
         \<and> userSessions st' (m_chat msg) =
             Some (s\<lparr>messageIds := Some (recorded s @ m_id msg #
                                          (case sent e of Resolved m \<Rightarrow> [m] | Rejected \<Rightarrow> [])),
                     amount := Some (Num x),
                     currencyCode := Some (case cur of None \<Rightarrow> ''SGD'' | Some c \<Rightarrow> c),
                     step := Some splitEqually\<rparr>)"
  using assms
  by (cases "sent e")
     (simp_all add: message_handler_def update_session_def then_push_def push_id_def
        push_existing_def Let_def)

lemma amount_rejected:
  assumes "userSessions st (m_chat msg) = Some s" and "userId s = Some (m_from msg)"
    and "step s = Some awaiting_amount" and "m_text msg = Some t"
    and "match_amount (trim t) = None"
  shows "\<exists>st'.
           message_handler e st msg = (st', [SendMessage (m_chat msg) (Text txt_invalid_amount) None], Returned)
         \<and> userSessions st' (m_chat msg) = Some (s\<lparr>messageIds := Some (recorded s @ [m_id msg])\<rparr>)"
  using assms
  by (simp add: message_handler_def update_session_def push_id_def Let_def)

text \<open>
  White space of more than one byte is white space to \<^verbatim>\<open>trim\<close> and to the pattern: a
  no-break space (U+00A0) between the number and the currency, an em space (U+2003)
  after it.
\<close>

lemma trim_unicode_space:
  "trim ([CHR 0xC2, CHR 0xA0] @ ''10 USD'' @ [CHR 0xE2, CHR 0x80, CHR 0x83, CHR 0x0A]) = ''10 USD''"
  by code_simp

lemma match_no_break_space:
  "match_amount (''10'' @ [CHR 0xC2, CHR 0xA0] @ ''USD'') = Some (''10'', Some ''USD'')"
  by code_simp

text \<open>
  A text that matches but whose number is not positive is answered with
  \<open>txt_invalid_positive\<close>, and again only the id of the user's message is recorded.
\<close>

lemma amount_not_positive:
  assumes "userSessions st (m_chat msg) = Some s" and "userId s = Some (m_from msg)"
    and "step s = Some awaiting_amount" and "m_text msg = Some t"
    and "match_amount (trim t) = Some (num, cur)" and "parseFloat num = Num x" and "x \<le> 0"
  shows "\<exists>st'.
           message_handler e st msg
             = (st', [SendMessage (m_chat msg) (Text txt_invalid_positive) None], Returned)
         \<and> userSessions st' (m_chat msg) = Some (s\<lparr>messageIds := Some (recorded s @ [m_id msg])\<rparr>)"
  using assms
  by (simp add: message_handler_def update_session_def push_id_def Let_def)

text \<open>
  C5. For a session of the sender at the step \<open>awaiting_amount\<close>: the text \<^verbatim>\<open>10\<close> stores
  the amount 10 and the fallback currency \<^verbatim>\<open>SGD\<close>, the text \<^verbatim>\<open>10 USD\<close> stores the amount
  10 and the currency \<^verbatim>\<open>USD\<close>, and both move the step on to the choice of the split; each
  of the texts \<^verbatim>\<open>-5\<close>, \<^verbatim>\<open>abc\<close> and the empty text is answered with the message
  \<open>txt_invalid_amount\<close> and leaves the session as it was but for the id of the
  user's message, which the handler records before it looks at the step.
\<close>

theorem amount_inputs:
  assumes "userSessions st chatId = Some s" and "userId s = Some user"
    and "step s = Some awaiting_amount"
  shows "(\<exists>st' ids kb.
            message_handler e st \<lparr>m_chat = chatId, m_from = user, m_id = mid, m_text = Some ''10''\<rparr>
              = (st', [SendMessage chatId (Text txt_split_equally) (Some kb)], Completed)
          \<and> userSessions st' chatId =
              Some (s\<lparr>messageIds := ids, amount := Some (Num 10), currencyCode := Some ''SGD'',
                      step := Some splitEqually\<rparr>))
       \<and> (\<exists>st' ids kb.
            message_handler e st \<lparr>m_chat = chatId, m_from = user, m_id = mid, m_text = Some ''10 USD''\<rparr>
              = (st', [SendMessage chatId (Text txt_split_equally) (Some kb)], Completed)
          \<and> userSessions st' chatId =
              Some (s\<lparr>messageIds := ids, amount := Some (Num 10), currencyCode := Some ''USD'',
                      step := Some splitEqually\<rparr>))
       \<and> (\<forall>t \<in> {''-5'', ''abc'', ''''}.
            \<exists>st'.
              message_handler e st \<lparr>m_chat = chatId, m_from = user, m_id = mid, m_text = Some t\<rparr>
                = (st', [SendMessage chatId (Text txt_invalid_amount) None], Returned)
            \<and> userSessions st' chatId = Some (s\<lparr>messageIds := Some (recorded s @ [mid])\<rparr>))"
proof (intro conjI ballI)
  let ?m = "\<lambda>t. \<lparr>m_chat = chatId, m_from = user, m_id = mid, m_text = Some t\<rparr>"
  show "\<exists>st' ids kb.
            message_handler e st (?m ''10'')
              = (st', [SendMessage chatId (Text txt_split_equally) (Some kb)], Completed)
          \<and> userSessions st' chatId =
              Some (s\<lparr>messageIds := ids, amount := Some (Num 10), currencyCode := Some ''SGD'',
                      step := Some splitEqually\<rparr>)"
    using amount_accepted [of st "?m ''10''" s "''10''" "''10''" None 10 e] assms
    by (simp add: trim_10 match_10 parseFloat_10) blast
  show "\<exists>st' ids kb.
            message_handler e st (?m ''10 USD'')
              = (st', [SendMessage chatId (Text txt_split_equally) (Some kb)], Completed)
          \<and> userSessions st' chatId =
              Some (s\<lparr>messageIds := ids, amount := Some (Num 10), currencyCode := Some ''USD'',
                      step := Some splitEqually\<rparr>)"
    using amount_accepted [of st "?m ''10 USD''" s "''10 USD''" "''10''" "Some ''USD''" 10 e] assms
    by (simp add: trim_10_USD match_10_USD parseFloat_10) blast
  fix t :: string
  assume "t \<in> {''-5'', ''abc'', ''''}"
  then have "match_amount (trim t) = None"
    by (auto simp add: trim_minus_5 trim_abc trim_empty match_minus_5 match_abc match_empty)
  then show "\<exists>st'.
              message_handler e st (?m t)
                = (st', [SendMessage chatId (Text txt_invalid_amount) None], Returned)
            \<and> userSessions st' chatId = Some (s\<lparr>messageIds := Some (recorded s @ [mid])\<rparr>)"
    using amount_rejected [of st "?m t" s t e] assms by simp
qed

theorem amount_inputs_witness:
  "userSessions asked 1 = Some asked_session \<and> userId asked_session = Some 7
   \<and> step asked_session = Some awaiting_amount
   \<and> (\<exists>st' ids kb.
         message_handler (replies 304) asked (say 303 ''10 USD'')
           = (st', [SendMessage 1 (Text txt_split_equally) (Some kb)], Completed)
       \<and> userSessions st' 1 =
           Some (asked_session\<lparr>messageIds := ids, amount := Some (Num 10),
                                currencyCode := Some ''USD'', step := Some splitEqually\<rparr>))
   \<and> (\<exists>st'.
         message_handler (replies 304) asked (say 303 ''abc'')
           = (st', [SendMessage 1 (Text txt_invalid_amount) None], Returned)
       \<and> userSessions st' 1
           = Some (asked_session\<lparr>messageIds := Some [300, 301, 302, 303]\<rparr>))"
proof -
  have h: "userSessions asked 1 = Some asked_session" "userId asked_session = Some 7"
    "step asked_session = Some awaiting_amount"
    by (simp_all add: asked_def asked_session_def)
  have r: "recorded asked_session = [300, 301, 302]"
    by (simp add: recorded_def asked_session_def)
  show ?thesis
    using amount_inputs [OF h, of "replies 304" 303] h r
    by (simp add: say_def)
qed

subsection \<open>The shares of a custom split\<close>










text \<open>
  The quotient and its rounding follow the binary64 values. The text \<^verbatim>\<open>0.1\<close> is read as
  the binary64 number nearest to one tenth. A share that lies half-way between two
  hundredths in decimal goes where its binary64 value lies: 2.01 split in two gives 1.00
  each, 1.01 split in two gives 0.51 each. The shares of 10 split in three are 3.33 each,
  and nothing reconciles them with the cost 10.00.
\<close>

lemma parseFloat_tenth: "parseFloat ''0.1'' = Num (3602879701896397 / 36028797018963968)"
  by code_simp

lemma share_201_2: "toFixed2 (js_div (parseFloat ''2.01'') 2) = Fixed2 100"
  by code_simp

lemma share_101_2: "toFixed2 (js_div (parseFloat ''1.01'') 2) = Fixed2 51"
  by code_simp

lemma share_10_3: "toFixed2 (js_div (parseFloat ''10'') 3) = Fixed2 333"
  by code_simp

subsection \<open>Which presses are answered\<close>

lemma is_answer_simps [simp]:
  "is_answer (AnswerCallbackQuery i tx a)"
  "\<not> is_answer (SendMessage c m k)"
  "\<not> is_answer (EditMessageReplyMarkup c mi kb)"
  "\<not> is_answer (DeleteMessage c mi)"
  "\<not> is_answer (GetGroups tk)"
  "\<not> is_answer (GetGroup tk g)"
  "\<not> is_answer (CreateExpense tk P)"
  "\<not> is_answer (SaveDefaultGroup c g)"
  "\<not> is_answer (DestroyToken c)"
  by (simp_all add: is_answer_def)

lemma no_answer_deletes [simp]: "filter is_answer (map (DeleteMessage c) ms) = []"
  by (induction ms) simp_all

lemma report_no_answer [simp]: "\<not> is_answer (report_expense e c a cur)"
  by (simp add: report_expense_def split: outcome.splits expense_data.splits)

lemma on_group_no_answer: "filter is_answer (fst (snd (on_group e st cq))) = []"
  by (simp add: on_group_def Let_def split_beta split: outcome.splits option.splits)

lemma on_createExpense_no_answer: "filter is_answer (fst (snd (on_createExpense e st cq))) = []"
  by (simp add: on_createExpense_def Let_def)

lemma on_setgroup_no_answer: "filter is_answer (fst (snd (on_setgroup e st cq))) = []"
  by (simp add: on_setgroup_def Let_def split: outcome.splits option.splits)

lemma on_splitEquallyYes_no_answer:
  "filter is_answer (fst (snd (on_splitEquallyYes e st cq))) = []"
  by (simp add: on_splitEquallyYes_def Let_def split: option.splits)

lemma on_splitEquallyNo_no_answer:
  "filter is_answer (fst (snd (on_splitEquallyNo e st cq))) = []"
  by (simp add: on_splitEquallyNo_def Let_def split: outcome.splits option.splits)

lemma on_toggle_member_no_answer:
  "filter is_answer (fst (snd (on_toggle_member e st cq))) = []"
  by (simp add: on_toggle_member_def Let_def split: option.splits)

lemma on_submit_no_answer: "filter is_answer (fst (snd (on_submit e st cq))) = []"
  by (simp add: on_submit_def Let_def split: option.splits)

lemma dispatch_no_answer: "filter is_answer (fst (snd (dispatch e st cq))) = []"
  by (simp add: dispatch_def Let_def on_group_no_answer on_createExpense_no_answer
      on_setgroup_no_answer on_splitEquallyYes_no_answer on_splitEquallyNo_no_answer
      on_toggle_member_no_answer on_submit_no_answer)

text \<open>
  The answers among the calls of the handler: the alert for another user than the owner,
  the plain answer when the branch for the data reached the end of the chain, and none
  when the branch left through a \<^verbatim>\<open>return\<close> or an exception.
\<close>

lemma press_answers:
  "filter is_answer (fst (snd (callback_query_handler e st cq))) =
     (if (case userSessions st (cq_chat cq) of None \<Rightarrow> False
          | Some s \<Rightarrow> userId s \<noteq> Some (cq_from cq))
      then [AnswerCallbackQuery (cq_id cq) (Some txt_cant_interact) True]
      else if snd (snd (dispatch e (clearSessionTimeout st (cq_chat cq)) cq)) = Completed
      then [AnswerCallbackQuery (cq_id cq) None False]
      else [])"
proof (cases "userSessions st (cq_chat cq)")
  case None
  then have "clearSessionTimeout st (cq_chat cq) = st" by (simp add: clearSessionTimeout_def)
  then show ?thesis
    using None dispatch_no_answer [of e st cq]
    by (simp add: callback_query_handler_def Let_def split_beta)
next
  case (Some s)
  then have s1: "userSessions (clearSessionTimeout st (cq_chat cq)) (cq_chat cq)
                 = Some (s\<lparr>timeout := None\<rparr>)"
    by (rule clearSessionTimeout_session)
  show ?thesis
    using Some s1 dispatch_no_answer [of e "clearSessionTimeout st (cq_chat cq)" cq]
    by (simp add: callback_query_handler_def Let_def split_beta)
qed

text \<open>
  C8 does not hold of the code. The owner of the wizard session presses Submit with
  nothing selected: the handler sends \<open>txt_no_members_selected\<close> and returns at line
  891; \<^verbatim>\<open>bot.answerCallbackQuery\<close> of line 988 is not reached, and the list of calls has
  no answer to the press.
\<close>

theorem submit_without_selection_unanswered:
  "callback_query_handler (replies 306) (wizard []) (press 7 305 ''submit_selected_members'')
     = (wizard [], [SendMessage 1 (Text txt_no_members_selected) None], Returned)"
  by (simp add: callback_query_handler_def dispatch_def startsWith_def on_submit_def
      wizard_def wizard_session_def clearSessionTimeout_def press_def)

subsection \<open>Events that open a flow\<close>

text \<open>The store is a map from chat ids: it holds one session for a chat, or none.\<close>

lemma one_session_per_chat: "card {s. userSessions (run init evs) c = Some s} \<le> 1"
proof (cases "userSessions (run init evs) c")
  case None
  then show ?thesis by simp
next
  case (Some s)
  then have "{s'. userSessions (run init evs) c = Some s'} = {s}" by auto
  then show ?thesis by simp
qed

lemma cleanUpSession_calls:
  "userSessions st c = Some s \<Longrightarrow>
     snd (cleanUpSession st c) = map (DeleteMessage c) (recorded s)"
  by (simp add: cleanUpSession_def Let_def)

lemma cleanUpSession_cancels:
  assumes "userSessions st c = Some s" and "timeout s = Some t"
  shows "timers (fst (cleanUpSession st c)) t = None"
  using assms by (simp add: cleanUpSession_def clearSessionTimeout_def)

text \<open>
  The four commands that open a flow start with \<^verbatim>\<open>cleanUpSession\<close>: their first calls are
  the deletions of the recorded message ids of the session they find, in recorded order.
\<close>

lemma commands_clean_up_first:
  assumes "userSessions st c = Some s"
  shows "take (length (recorded s)) (fst (snd (login_cmd e st c u)))
           = map (DeleteMessage c) (recorded s)"
    and "take (length (recorded s)) (fst (snd (group_cmd e st c u)))
           = map (DeleteMessage c) (recorded s)"
    and "take (length (recorded s)) (fst (snd (setgroup_cmd e st c u)))
           = map (DeleteMessage c) (recorded s)"
    and "take (length (recorded s)) (fst (snd (expense_cmd e st c u)))
           = map (DeleteMessage c) (recorded s)"
  using cleanUpSession_calls [OF assms]
  by (simp_all add: login_cmd_def group_cmd_def setgroup_cmd_def expense_cmd_def Let_def
      split_beta split: outcome.splits option.splits)

text \<open>
  C2 does not hold of the code for the button. In the state after \<^verbatim>\<open>/group\<close> and the press
  of a group, the session of user 7 has recorded the ids 100 and 200 and its timer 1 is
  pending. The press of \<^verbatim>\<open>createExpense_5\<close> cancels the timer and stores a fresh session,
  but its only calls are the prompt and the answer: no recorded message is deleted. The
  command \<^verbatim>\<open>/expense\<close> in the same state reaches the same state after it has tried to
  delete every recorded id.
\<close>

theorem createExpense_button_skips_cleanup:
  "callback_query_handler (replies 300) detailed (press 7 200 ''createExpense_5'')
     = (\<lparr>userSessions = [1 \<mapsto> (expense_session 1 (Some ''5'') 7)\<lparr>messageIds := Some [300]\<rparr>],
         timers = Map.empty, nextTimer = 2, nextObject = 2\<rparr>,
        [SendMessage 1 (Text txt_enter_description) None, AnswerCallbackQuery ''q'' None False],
        Completed)
   \<and> expense_cmd (replies 300) detailed 1 7
     = (\<lparr>userSessions = [1 \<mapsto> (expense_session 1 (Some ''5'') 7)\<lparr>messageIds := Some [300]\<rparr>],
         timers = Map.empty, nextTimer = 2, nextObject = 2\<rparr>,
        [DeleteMessage 1 100, DeleteMessage 1 100, DeleteMessage 1 100, DeleteMessage 1 200,
         DeleteMessage 1 200, SendMessage 1 (Text txt_enter_description) None],
        Completed)"
  by (simp add: callback_query_handler_def dispatch_def startsWith_def on_createExpense_def
      expense_cmd_def detailed_def segment_createExpense_5 run_defs)

subsection \<open>Expiry\<close>

lemma onExpire_calls:
  "fst (snd (onExpire e st tm)) =
     EditMessageReplyMarkup (t_chat tm) (t_message tm) []
     # (if editOk e then [DeleteMessage (t_chat tm) (t_message tm)] else [])
     @ [SendMessage (t_chat tm) (Text txt_expired) None]"
  by (simp add: onExpire_def Let_def split: outcome.splits option.splits)

lemma onExpire_removes:
  assumes "sent e = Resolved m" and "t_session tm = Some ob"
  shows "\<exists>st'. onExpire e st tm =
           (st', EditMessageReplyMarkup (t_chat tm) (t_message tm) []
                 # (if editOk e then [DeleteMessage (t_chat tm) (t_message tm)] else [])
                 @ [SendMessage (t_chat tm) (Text txt_expired) None], Completed)
         \<and> userSessions st' (t_chat tm) = None"
  using assms by (simp add: onExpire_def Let_def)

text \<open>
  C3 does not hold of the code in its part (c). In the state after \<^verbatim>\<open>/group\<close> and the
  press of a group, the session has recorded the ids 100 (the list) and 200 (the group
  detail), and the timer 1 is armed on the message 200. When it fires, the callback
  strips and deletes the message 200, sends the notice and removes the session. The
  message 100 and the notice are never tried: the callback pushes the id of the notice on
  \<^verbatim>\<open>session.messageIds\<close> and deletes the session in the next statement, without the loop
  over the recorded ids that \<^verbatim>\<open>cleanUpSession\<close> and the three submitting branches run.
\<close>

theorem expiry_leaves_artifacts:
  "userSessions detailed 1
     = Some ((empty_object 0)\<lparr>timeout := Some 1, messageIds := Some [100, 100, 100, 200, 200],
                               userId := Some 7\<rparr>)
   \<and> fire (replies 201) detailed 1
     = (\<lparr>userSessions = Map.empty, timers = Map.empty, nextTimer = 2, nextObject = 1\<rparr>,
        [EditMessageReplyMarkup 1 200 [], DeleteMessage 1 200,
         SendMessage 1 (Text txt_expired) None],
        Completed)"
  by (simp add: fire_def onExpire_def detailed_def run_defs)

text \<open>
  C4 does not hold of the code. Users 7 and 8 send \<^verbatim>\<open>/group\<close> in chat 1 and both handlers
  pass \<^verbatim>\<open>cleanUpSession\<close> before either has a reply to its \<^verbatim>\<open>fetch\<close>. The handler of
  user 7 resumes first and arms timer 0 for its session (object 0). The handler of user 8
  then stores its own session (object 1) over it at line 296, without the
  \<^verbatim>\<open>clearTimeout\<close> that \<^verbatim>\<open>cleanUpSession\<close> and the button-press handler run before a
  session is removed or replaced, and arms timer 1. Timer 0, armed for a session that has
  been replaced, is still pending. When it fires, the callback makes no check that its
  session is still the stored one: it sends the notice and deletes
  \<^verbatim>\<open>userSessions[chatId]\<close>, which is the newer session of user 8, whose own deadline has
  not passed.
\<close>

theorem stale_deadline_removes_newer_session:
  "fst (group_cmd_resume (replies 101)
         (fst (group_cmd_resume (replies 100)
                (fst (cleanUpSession (fst (cleanUpSession init 1)) 1)) 1 7 (Some ''tok'')))
         1 8 (Some ''tok'')) = overlapped
   \<and> userSessions overlapped 1
       = Some ((empty_object 1)\<lparr>timeout := Some 1, messageIds := Some [101, 101],
                                 userId := Some 8\<rparr>)
   \<and> timers overlapped 0 = Some \<lparr>t_chat = 1, t_message = 100, t_session = Some 0\<rparr>
   \<and> fire (replies 102) overlapped 0
       = (\<lparr>userSessions = Map.empty,
           timers = [1 \<mapsto> \<lparr>t_chat = 1, t_message = 101, t_session = Some 1\<rparr>],
           nextTimer = 2, nextObject = 2\<rparr>,
          [EditMessageReplyMarkup 1 100 [], DeleteMessage 1 100,
           SendMessage 1 (Text txt_expired) None],
          Completed)"
proof -
  have "fst (group_cmd_resume (replies 101)
         (fst (group_cmd_resume (replies 100)
                (fst (cleanUpSession (fst (cleanUpSession init 1)) 1)) 1 7 (Some ''tok'')))
         1 8 (Some ''tok'')) = overlapped"
    by (simp add: overlapped_reached)
  moreover have "fire (replies 102) overlapped 0
       = (\<lparr>userSessions = Map.empty,
           timers = [1 \<mapsto> \<lparr>t_chat = 1, t_message = 101, t_session = Some 1\<rparr>],
           nextTimer = 2, nextObject = 2\<rparr>,
          [EditMessageReplyMarkup 1 100 [], DeleteMessage 1 100,
           SendMessage 1 (Text txt_expired) None],
          Completed)"
    by (simp add: fire_def onExpire_def overlapped_def update_session_def replies_def
        empty_object_def fun_upd_twist)
  ultimately show ?thesis
    by (simp add: overlapped_def)
qed

lemma update_session_timers [simp]:
  "timers (update_session st c f) = timers st"
  "nextTimer (update_session st c f) = nextTimer st"
  by (simp_all add: update_session_def)

lemma then_push_timers [simp]:
  "timers (then_push e st c) = timers st"
  "nextTimer (then_push e st c) = nextTimer st"
  by (simp_all add: then_push_def split: outcome.splits)

lemma clearSessionTimeout_timers:
  "timers st t = None \<Longrightarrow> timers (clearSessionTimeout st c) t = None"
  by (simp add: clearSessionTimeout_def split: option.splits)

lemma clearSessionTimeout_nextTimer [simp]:
  "nextTimer (clearSessionTimeout st c) = nextTimer st"
  by (simp add: clearSessionTimeout_def split: option.splits)

lemma setButtonTimeout_timers:
  assumes "timers st t = None" and "t < nextTimer st"
  shows "timers (fst (setButtonTimeout st c m)) t = None"
  using assms clearSessionTimeout_timers [OF assms(1), of c]
  by (simp add: setButtonTimeout_def Let_def split: option.splits)

lemma on_group_timers:
  assumes "timers st t = None" and "t < nextTimer st"
  shows "timers (fst (on_group e st cq)) t = None"
proof -
  have "timers (fst (setButtonTimeout (update_session (update_session st c f) c g) c m)) t = None"
    for c f g m
    using assms by (intro setButtonTimeout_timers) simp_all
  then show ?thesis
    using assms(1)
    by (simp add: on_group_def Let_def split_beta split: outcome.splits option.splits)
qed

lemma on_createExpense_timers: "timers (fst (on_createExpense e st cq)) = timers st"
  by (simp add: on_createExpense_def Let_def)

lemma on_setgroup_timers: "timers (fst (on_setgroup e st cq)) = timers st"
  by (simp add: on_setgroup_def Let_def split: outcome.splits option.splits)

lemma on_splitEquallyYes_timers: "timers (fst (on_splitEquallyYes e st cq)) = timers st"
  by (simp add: on_splitEquallyYes_def Let_def split: option.splits)

lemma on_splitEquallyNo_timers: "timers (fst (on_splitEquallyNo e st cq)) = timers st"
  by (simp add: on_splitEquallyNo_def Let_def split: outcome.splits option.splits)

lemma on_toggle_member_timers: "timers (fst (on_toggle_member e st cq)) = timers st"
  by (simp add: on_toggle_member_def Let_def split: option.splits)

lemma on_submit_timers: "timers (fst (on_submit e st cq)) = timers st"
  by (simp add: on_submit_def Let_def split: option.splits)

lemma dispatch_timers:
  assumes "timers st t = None" and "t < nextTimer st"
  shows "timers (fst (dispatch e st cq)) t = None"
  using assms(1) on_group_timers [OF assms, of e cq]
  by (simp add: dispatch_def Let_def on_createExpense_timers on_setgroup_timers
      on_splitEquallyYes_timers on_splitEquallyNo_timers on_toggle_member_timers
      on_submit_timers)

lemma press_cancels:
  assumes "userSessions st (cq_chat cq) = Some s" and "timeout s = Some t"
    and "t < nextTimer st"
  shows "timers (fst (callback_query_handler e st cq)) t = None"
proof -
  let ?st1 = "clearSessionTimeout st (cq_chat cq)"
  have a: "timers ?st1 t = None"
    using assms(1,2) by (rule clearSessionTimeout_cancels)
  have b: "t < nextTimer ?st1" using assms(3) by simp
  have "timers (fst (dispatch e ?st1 cq)) t = None"
    using a b by (rule dispatch_timers)
  then show ?thesis
    using a by (simp add: callback_query_handler_def Let_def split_beta)
qed

subsection \<open>Deadlines in runs of handlers that do not overlap\<close>

lemma timelyD:
  "timely st \<Longrightarrow> timers st t = Some tm \<Longrightarrow>
     t < nextTimer st \<and> (\<exists>s. userSessions st (t_chat tm) = Some s \<and> timeout s = Some t
                                \<and> t_session tm = Some (oid s))"
  by (simp add: timely_def)

lemma timely_quiet_none:
  "timely st \<Longrightarrow> userSessions st c = None \<Longrightarrow> quiet st c"
  by (fastforce simp add: timely_def quiet_def)

lemma clear_timely:
  assumes "timely st"
  shows "timely (clearSessionTimeout st c) \<and> quiet (clearSessionTimeout st c) c"
proof (cases "userSessions st c")
  case None
  then show ?thesis
    using assms timely_quiet_none [OF assms None] by (simp add: clearSessionTimeout_def)
next
  case (Some s)
  show ?thesis
  proof (cases "timeout s")
    case None
    have "quiet st c"
      using assms Some None by (fastforce simp add: timely_def quiet_def)
    then show ?thesis
      using assms Some None by (simp add: clearSessionTimeout_def)
  next
    case (Some t0)
    note s = \<open>userSessions st c = Some s\<close>
    have st': "clearSessionTimeout st c =
                 st\<lparr>timers := (timers st)(t0 := None),
                    userSessions := (userSessions st)(c \<mapsto> s\<lparr>timeout := None\<rparr>)\<rparr>"
      using s Some by (simp add: clearSessionTimeout_def)
    have q: "quiet (clearSessionTimeout st c) c"
      unfolding st' quiet_def
    proof (intro allI impI)
      fix t tm
      assume a: "timers (st\<lparr>timers := (timers st)(t0 := None),
                    userSessions := (userSessions st)(c \<mapsto> s\<lparr>timeout := None\<rparr>)\<rparr>) t = Some tm"
      then have tt: "t \<noteq> t0" "timers st t = Some tm" by (auto split: if_splits)
      show "t_chat tm \<noteq> c"
      proof
        assume "t_chat tm = c"
        then have "timeout s = Some t" using timelyD [OF assms tt(2)] s by auto
        then show False using Some tt(1) by simp
      qed
    qed
    have "timely (clearSessionTimeout st c)"
      unfolding timely_def
    proof (intro allI impI)
      fix t tm
      assume a: "timers (clearSessionTimeout st c) t = Some tm"
      then have tt: "t \<noteq> t0" "timers st t = Some tm" by (auto simp add: st' split: if_splits)
      have nc: "t_chat tm \<noteq> c" using q a by (simp add: quiet_def)
      show "t < nextTimer (clearSessionTimeout st c)
            \<and> (\<exists>s. userSessions (clearSessionTimeout st c) (t_chat tm) = Some s
                   \<and> timeout s = Some t \<and> t_session tm = Some (oid s))"
        using timelyD [OF assms tt(2)] nc by (simp add: st')
    qed
    then show ?thesis using q by simp
  qed
qed

text \<open>A change of the session of a quiet chat, with the timers as they are.\<close>

lemma timely_quiet_change:
  assumes "timely st" and "quiet st c"
    and "timers st' = timers st" and "nextTimer st \<le> nextTimer st'"
    and "\<forall>c'. c' \<noteq> c \<longrightarrow> userSessions st' c' = userSessions st c'"
  shows "timely st' \<and> quiet st' c"
proof
  show "quiet st' c" using assms(2,3) by (simp add: quiet_def)
  show "timely st'"
    unfolding timely_def
  proof (intro allI impI)
    fix t tm
    assume a: "timers st' t = Some tm"
    then have b: "timers st t = Some tm" using assms(3) by simp
    then have "t_chat tm \<noteq> c" using assms(2) by (simp add: quiet_def)
    then show "t < nextTimer st'
            \<and> (\<exists>s. userSessions st' (t_chat tm) = Some s
                   \<and> timeout s = Some t \<and> t_session tm = Some (oid s))"
      using timelyD [OF assms(1) b] assms(4,5) by auto
  qed
qed

text \<open>A change of a session that keeps its identity and its handle.\<close>

lemma timely_update:
  assumes "timely st" and "\<And>s. timeout (f s) = timeout s \<and> oid (f s) = oid s"
  shows "timely (update_session st c f)"
  unfolding timely_def
proof (intro allI impI)
  fix t tm
  assume "timers (update_session st c f) t = Some tm"
  then have b: "timers st t = Some tm" by (simp add: update_session_def)
  from timelyD [OF assms(1) b] obtain s where
    s: "t < nextTimer st" "userSessions st (t_chat tm) = Some s" "timeout s = Some t"
       "t_session tm = Some (oid s)" by blast
  show "t < nextTimer (update_session st c f)
        \<and> (\<exists>s. userSessions (update_session st c f) (t_chat tm) = Some s
               \<and> timeout s = Some t \<and> t_session tm = Some (oid s))"
    using s assms(2) by (cases "t_chat tm = c") (simp_all add: update_session_def)
qed

lemma arm_timely:
  assumes "timely st" and "quiet st c" and "userSessions st c = Some s"
  shows "timely (fst (setButtonTimeout st c m))"
proof -
  have cl: "clearSessionTimeout st c = st \<or> (\<exists>t0. timeout s = Some t0)"
    using assms(3) by (cases "timeout s") (simp_all add: clearSessionTimeout_def)
  let ?st1 = "clearSessionTimeout st c"
  have t1: "timely ?st1" "quiet ?st1 c" using clear_timely [OF assms(1)] by simp_all
  have s1: "userSessions ?st1 c = Some (s\<lparr>timeout := None\<rparr>)"
    using assms(3) by (rule clearSessionTimeout_session)
  let ?t = "nextTimer ?st1"
  let ?tm = "\<lparr>t_chat = c, t_message = m, t_session = Some (oid s)\<rparr>"
  let ?s' = "push_id (s\<lparr>timeout := Some ?t\<rparr>) m"
  have r: "fst (setButtonTimeout st c m) =
             ?st1\<lparr>timers := (timers ?st1)(?t \<mapsto> ?tm), nextTimer := Suc ?t,
                   userSessions := (userSessions ?st1)(c \<mapsto> ?s')\<rparr>"
    using assms(3) s1 by (simp add: setButtonTimeout_def Let_def push_id_def recorded_def)
  show ?thesis
    unfolding r timely_def
  proof (intro allI impI)
    fix t tm
    assume a: "timers (?st1\<lparr>timers := (timers ?st1)(?t \<mapsto> ?tm), nextTimer := Suc ?t,
                   userSessions := (userSessions ?st1)(c \<mapsto> ?s')\<rparr>) t = Some tm"
    show "t < nextTimer (?st1\<lparr>timers := (timers ?st1)(?t \<mapsto> ?tm), nextTimer := Suc ?t,
                   userSessions := (userSessions ?st1)(c \<mapsto> ?s')\<rparr>)
          \<and> (\<exists>s. userSessions (?st1\<lparr>timers := (timers ?st1)(?t \<mapsto> ?tm), nextTimer := Suc ?t,
                   userSessions := (userSessions ?st1)(c \<mapsto> ?s')\<rparr>) (t_chat tm) = Some s
                 \<and> timeout s = Some t \<and> t_session tm = Some (oid s))"
    proof (cases "t = ?t")
      case True
      then have "tm = ?tm" using a by simp
      then show ?thesis using True by (simp add: push_id_def)
    next
      case False
      then have b: "timers ?st1 t = Some tm" using a by simp
      then have "t_chat tm \<noteq> c" using t1(2) by (simp add: quiet_def)
      then show ?thesis using timelyD [OF t1(1) b] by auto
    qed
  qed
qed

lemma changes_only_refl [simp]: "changes_only c st st"
  by (simp add: changes_only_def)

lemma changes_only_trans:
  "changes_only c st st' \<Longrightarrow> changes_only c st' st'' \<Longrightarrow> changes_only c st st''"
  by (simp add: changes_only_def)

lemma changes_only_update [simp]: "changes_only c st (update_session st c f)"
  by (simp add: changes_only_def update_session_def)

lemma changes_only_then_push [simp]: "changes_only c st (then_push e st c)"
  by (simp add: then_push_def split: outcome.splits)

lemma changes_only_store [simp]:
  "changes_only c st (st\<lparr>userSessions := (userSessions st)(c := x)\<rparr>)"
  "changes_only c st (st\<lparr>userSessions := (userSessions st)(c := x), nextObject := n\<rparr>)"
  by (simp_all add: changes_only_def)

lemma timely_changes_only:
  assumes "timely st" and "quiet st c" and "changes_only c st st'"
  shows "timely st' \<and> quiet st' c"
  using assms by (intro timely_quiet_change [of st c st']) (simp_all add: changes_only_def)

lemma cleanUp_timely:
  assumes "timely st"
  shows "timely (fst (cleanUpSession st c)) \<and> quiet (fst (cleanUpSession st c)) c"
proof (cases "userSessions st c")
  case None
  then show ?thesis
    using assms timely_quiet_none [OF assms None] by (simp add: cleanUpSession_def)
next
  case (Some s)
  let ?st1 = "clearSessionTimeout st c"
  have "timely ?st1" "quiet ?st1 c" using clear_timely [OF assms] by simp_all
  then have "timely (?st1\<lparr>userSessions := (userSessions ?st1)(c := None)\<rparr>)
             \<and> quiet (?st1\<lparr>userSessions := (userSessions ?st1)(c := None)\<rparr>) c"
    by (rule timely_changes_only) simp
  then show ?thesis using Some by (simp add: cleanUpSession_def Let_def)
qed

lemma on_createExpense_changes: "changes_only (cq_chat cq) st (fst (on_createExpense e st cq))"
  by (simp add: on_createExpense_def Let_def changes_only_def then_push_def update_session_def
      split: outcome.splits)

lemma on_setgroup_changes: "changes_only (cq_chat cq) st (fst (on_setgroup e st cq))"
  by (simp add: on_setgroup_def Let_def split: outcome.splits option.splits)

lemma on_splitEquallyYes_changes: "changes_only (cq_chat cq) st (fst (on_splitEquallyYes e st cq))"
  by (simp add: on_splitEquallyYes_def Let_def split: option.splits)

lemma on_splitEquallyNo_changes: "changes_only (cq_chat cq) st (fst (on_splitEquallyNo e st cq))"
  by (simp add: on_splitEquallyNo_def Let_def changes_only_def then_push_def update_session_def
      split: outcome.splits option.splits)

lemma on_toggle_member_changes: "changes_only (cq_chat cq) st (fst (on_toggle_member e st cq))"
  by (simp add: on_toggle_member_def Let_def split: option.splits)

lemma on_submit_changes: "changes_only (cq_chat cq) st (fst (on_submit e st cq))"
  by (simp add: on_submit_def Let_def split: option.splits)

lemma arm_after_updates:
  assumes "timely st" and "quiet st c" and "userSessions st c = Some s"
  shows "timely (fst (setButtonTimeout (update_session (update_session st c f) c g) c m))"
proof -
  let ?st2 = "update_session (update_session st c f) c g"
  have "changes_only c st ?st2"
    by (simp add: changes_only_def update_session_def)
  then have "timely ?st2" "quiet ?st2 c"
    using timely_changes_only [OF assms(1,2)] by simp_all
  moreover have "userSessions ?st2 c = Some (g (f s))"
    using assms(3) by (simp add: update_session_def)
  ultimately show ?thesis by (rule arm_timely)
qed

lemma on_group_timely:
  assumes "timely st" and "quiet st (cq_chat cq)"
  shows "timely (fst (on_group e st cq))"
proof -
  have u: "timely (update_session st (cq_chat cq) f)" for f
    using timely_changes_only [OF assms, of "update_session st (cq_chat cq) f"] by simp
  show ?thesis
    using assms(1) u arm_after_updates [OF assms]
    by (simp add: on_group_def Let_def split_beta split: outcome.splits option.splits) blast
qed

lemma dispatch_timely:
  assumes "timely st" and "quiet st (cq_chat cq)"
  shows "timely (fst (dispatch e st cq))"
  using assms(1) on_group_timely [OF assms, of e]
    timely_changes_only [OF assms on_createExpense_changes, of e]
    timely_changes_only [OF assms on_setgroup_changes, of e]
    timely_changes_only [OF assms on_splitEquallyYes_changes, of e]
    timely_changes_only [OF assms on_splitEquallyNo_changes, of e]
    timely_changes_only [OF assms on_toggle_member_changes, of e]
    timely_changes_only [OF assms on_submit_changes, of e]
  by (simp add: dispatch_def Let_def)

lemma press_timely:
  assumes "timely st"
  shows "timely (fst (callback_query_handler e st cq))"
proof -
  let ?st1 = "clearSessionTimeout st (cq_chat cq)"
  have a: "timely ?st1" "quiet ?st1 (cq_chat cq)" using clear_timely [OF assms] by simp_all
  then have "timely (fst (dispatch e ?st1 cq))" by (rule dispatch_timely)
  then show ?thesis
    using a(1) by (simp add: callback_query_handler_def Let_def split_beta)
qed

lemma login_timely:
  assumes "timely st"
  shows "timely (fst (login_cmd e st c u))"
proof -
  let ?st1 = "fst (cleanUpSession st c)"
  have a: "timely ?st1" "quiet ?st1 c" using cleanUp_timely [OF assms] by simp_all
  have "timely (?st1\<lparr>userSessions := (userSessions ?st1)(c \<mapsto> x), nextObject := n\<rparr>)" for x n
    using timely_changes_only [OF a] by simp
  then show ?thesis
    using a(1) by (simp add: login_cmd_def Let_def split_beta split: outcome.splits)
qed

lemma expense_timely:
  assumes "timely st"
  shows "timely (fst (expense_cmd e st c u))"
proof -
  let ?st1 = "fst (cleanUpSession st c)"
  have a: "timely ?st1" "quiet ?st1 c" using cleanUp_timely [OF assms] by simp_all
  have "timely (then_push e (?st1\<lparr>userSessions := (userSessions ?st1)(c \<mapsto> x),
                                      nextObject := n\<rparr>) c)" for x n
  proof -
    have "changes_only c ?st1 (then_push e (?st1\<lparr>userSessions := (userSessions ?st1)(c \<mapsto> x),
                                      nextObject := n\<rparr>) c)"
      by (rule changes_only_trans [where st' = "?st1\<lparr>userSessions := (userSessions ?st1)(c \<mapsto> x),
                                      nextObject := n\<rparr>"]) simp_all
    then show ?thesis using timely_changes_only [OF a] by simp
  qed
  then show ?thesis
    using a(1) by (simp add: expense_cmd_def Let_def split_beta split: outcome.splits)
qed

lemma setgroup_timely:
  assumes "timely st"
  shows "timely (fst (setgroup_cmd e st c u))"
proof -
  let ?st1 = "fst (cleanUpSession st c)"
  have a: "timely ?st1" "quiet ?st1 c" using cleanUp_timely [OF assms] by simp_all
  have b: "timely (?st1\<lparr>userSessions := (userSessions ?st1)(c \<mapsto> x), nextObject := n\<rparr>)" for x n
    using timely_changes_only [OF a] by simp
  have "timely (update_session (?st1\<lparr>userSessions := (userSessions ?st1)(c \<mapsto> x),
                                         nextObject := n\<rparr>) c f)" for x n f
  proof -
    have "changes_only c ?st1 (update_session (?st1\<lparr>userSessions := (userSessions ?st1)(c \<mapsto> x),
                                         nextObject := n\<rparr>) c f)"
      by (rule changes_only_trans [where st' = "?st1\<lparr>userSessions := (userSessions ?st1)(c \<mapsto> x),
                                      nextObject := n\<rparr>"]) simp_all
    then show ?thesis using timely_changes_only [OF a] by simp
  qed
  then show ?thesis
    using a(1) b
    by (simp add: setgroup_cmd_def Let_def split_beta split: outcome.splits option.splits)
qed

lemma unlink_timely:
  assumes "timely st"
  shows "timely (fst (unlink_cmd e st c))"
  using cleanUp_timely [OF assms, of c]
  by (simp add: unlink_cmd_def Let_def split_beta split: outcome.splits)

lemma balance_timely:
  assumes "timely st"
  shows "timely (fst (balance_cmd e st c u))"
  using cleanUp_timely [OF assms, of c]
  by (simp add: balance_cmd_def Let_def split_beta split: outcome.splits option.splits)

lemma group_resume_timely:
  assumes "timely st" and "quiet st c"
  shows "timely (fst (group_cmd_resume e st c u tok))"
proof -
  let ?new = "\<lambda>x n. st\<lparr>userSessions := (userSessions st)(c \<mapsto> x), nextObject := n\<rparr>"
  have b: "timely (?new x n) \<and> quiet (?new x n) c" for x n
    using timely_changes_only [OF assms] by simp
  have "timely (fst (setButtonTimeout (update_session (?new x n) c f) c m))" for x n f m
  proof -
    have "changes_only c (?new x n) (update_session (?new x n) c f)" by simp
    then have "timely (update_session (?new x n) c f)" "quiet (update_session (?new x n) c f) c"
      using timely_changes_only b by blast+
    moreover have "userSessions (update_session (?new x n) c f) c = Some (f x)"
      by (simp add: update_session_def)
    ultimately show ?thesis by (rule arm_timely)
  qed
  then show ?thesis
    using assms(1) b
    by (simp add: group_cmd_resume_def Let_def split_beta split: outcome.splits option.splits)
qed

lemma group_timely:
  assumes "timely st"
  shows "timely (fst (group_cmd e st c u))"
proof -
  let ?st1 = "fst (cleanUpSession st c)"
  have a: "timely ?st1" "quiet ?st1 c" using cleanUp_timely [OF assms] by simp_all
  then have "timely (fst (group_cmd_resume e ?st1 c u (loadToken e)))"
    by (rule group_resume_timely)
  then show ?thesis
    using a(1) by (simp add: group_cmd_def Let_def split_beta)
qed

lemma push_id_keeps [simp]:
  "timeout (push_id s m) = timeout s" "oid (push_id s m) = oid s"
  by (simp_all add: push_id_def)

lemma push_existing_keeps [simp]:
  "timeout (push_existing s m) = timeout s" "oid (push_existing s m) = oid s"
  by (simp_all add: push_existing_def split: option.splits)

lemma then_push_timely: "timely st \<Longrightarrow> timely (then_push e st c)"
  by (simp add: then_push_def timely_update split: outcome.splits)

lemma message_timely:
  assumes "timely st"
  shows "timely (fst (message_handler e st msg))"
proof -
  have a: "timely (update_session st (m_chat msg) (\<lambda>s. push_id s (m_id msg)))"
    using assms by (rule timely_update) simp
  have b: "timely (then_push e (update_session
                     (update_session st (m_chat msg) (\<lambda>s. push_id s (m_id msg)))
                     (m_chat msg) (\<lambda>s. s\<lparr>description := d, step := p\<rparr>)) (m_chat msg))" for d p
    by (intro then_push_timely timely_update a) simp
  have c: "timely (then_push e (update_session
                     (update_session st (m_chat msg) (\<lambda>s. push_id s (m_id msg)))
                     (m_chat msg) (\<lambda>s. s\<lparr>amount := x, currencyCode := y, step := p\<rparr>)) (m_chat msg))"
    for x y p
    by (intro then_push_timely timely_update a) simp
  show ?thesis
    using assms a b c
    by (simp add: message_handler_def Let_def split: option.splits)
qed

lemma fire_timely:
  assumes "timely st"
  shows "timely (fst (fire e st t))"
proof (cases "timers st t")
  case None
  then show ?thesis using assms by (simp add: fire_def)
next
  case (Some tm)
  let ?st0 = "st\<lparr>timers := (timers st)(t := None)\<rparr>"
  let ?c = "t_chat tm"
  from timelyD [OF assms Some] obtain s where
    s: "userSessions st ?c = Some s" "timeout s = Some t" by blast
  have q: "quiet ?st0 ?c"
    unfolding quiet_def
  proof (intro allI impI)
    fix t' tm'
    assume "timers ?st0 t' = Some tm'"
    then have tt: "t' \<noteq> t" "timers st t' = Some tm'" by (auto split: if_splits)
    show "t_chat tm' \<noteq> ?c"
    proof
      assume "t_chat tm' = ?c"
      then have "timeout s = Some t'" using timelyD [OF assms tt(2)] s(1) by auto
      then show False using s(2) tt(1) by simp
    qed
  qed
  have t0: "timely ?st0"
    unfolding timely_def
  proof (intro allI impI)
    fix t' tm'
    assume "timers ?st0 t' = Some tm'"
    then have tt: "timers st t' = Some tm'" by (auto split: if_splits)
    show "t' < nextTimer ?st0
          \<and> (\<exists>s. userSessions ?st0 (t_chat tm') = Some s \<and> timeout s = Some t'
                 \<and> t_session tm' = Some (oid s))"
      using timelyD [OF assms tt] by simp
  qed
  have "timely ((update_session ?st0 ?c f)
                  \<lparr>userSessions := (userSessions (update_session ?st0 ?c f))(?c := None)\<rparr>)" for f
  proof -
    have "changes_only ?c ?st0 ((update_session ?st0 ?c f)
                  \<lparr>userSessions := (userSessions (update_session ?st0 ?c f))(?c := None)\<rparr>)"
      by (simp add: changes_only_def update_session_def)
    then show ?thesis using timely_changes_only [OF t0 q] by simp
  qed
  then show ?thesis
    using Some t0
    by (simp add: fire_def onExpire_def Let_def split: outcome.splits option.splits)
qed

lemma handle_timely: "timely st \<Longrightarrow> timely (fst (handle e st ev))"
  by (cases ev)
     (simp_all add: handle_def login_timely group_timely setgroup_timely expense_timely
        unlink_timely balance_timely press_timely message_timely fire_timely)

lemma init_timely: "timely init"
  by (simp add: timely_def init_def)

lemma run_timely: "timely st \<Longrightarrow> timely (run st evs)"
proof (induction evs arbitrary: st)
  case Nil
  then show ?case by simp
next
  case (Cons a evs)
  obtain e ev where a: "a = (e, ev)" by (cases a)
  show ?case using Cons by (simp add: a handle_timely)
qed

text \<open>
  When handlers run one after the other, the cancellation in \<^verbatim>\<open>cleanUpSession\<close> and in
  the button-press handler keeps every pending timer with the stored session of its chat:
  it is the timer whose handle that session holds, and it was armed for that session
  object. A timer that outlives its session needs two handlers that overlap.
\<close>

lemma pending_deadline_of_stored_session:
  assumes "timers (run init evs) t = Some tm"
  shows "\<exists>s. userSessions (run init evs) (t_chat tm) = Some s \<and> timeout s = Some t
             \<and> t_session tm = Some (oid s)"
proof -
  have "timely (run init evs)"
    using init_timely by (rule run_timely)
  then show ?thesis
    using assms timelyD by blast
qed

lemma overlapped_not_timely: "\<not> timely overlapped"
proof
  assume "timely overlapped"
  moreover have "timers overlapped 0 = Some \<lparr>t_chat = 1, t_message = 100, t_session = Some 0\<rparr>"
    by (simp add: overlapped_def)
  ultimately obtain s where "userSessions overlapped 1 = Some s" and "timeout s = Some 0"
    using timelyD by fastforce
  then show False
    by (auto simp add: overlapped_def empty_object_def)
qed

end
